theory Spec2Isabelle
  imports Main "HOL-Library.Word" "HOL-Library.Sublist"
begin

section \<open>JavaScript strings\<close>

text \<open>
  A JavaScript string is a sequence of UTF-16 code units. String literals of the
  source are written \<open>js ''...''\<close>.
\<close>

type_synonym code_unit = "16 word"
type_synonym jsstring = "code_unit list"

definition js :: "string \<Rightarrow> jsstring" where
  "js s = map of_char s"

text \<open>
  The code units that \<open>.\<close> of a regular expression (without the \<open>s\<close> flag) does not
  match: LF, CR, U+2028 and U+2029.
\<close>

definition is_line_terminator :: "code_unit \<Rightarrow> bool" where
  "is_line_terminator c = (c = 0x000A \<or> c = 0x000D \<or> c = 0x2028 \<or> c = 0x2029)"

text \<open>
  The code units removed by \<open>String.prototype.trim\<close>: ECMAScript WhiteSpace and
  LineTerminator.
\<close>

definition is_white_space :: "code_unit \<Rightarrow> bool" where
  "is_white_space c =
     (c = 0x0009 \<or> c = 0x000B \<or> c = 0x000C \<or> c = 0x0020 \<or> c = 0x00A0 \<or> c = 0x1680
      \<or> (0x2000 \<le> c \<and> c \<le> 0x200A) \<or> c = 0x202F \<or> c = 0x205F \<or> c = 0x3000
      \<or> c = 0xFEFF \<or> is_line_terminator c)"

definition trim :: "jsstring \<Rightarrow> jsstring" where
  "trim s = rev (dropWhile is_white_space (rev (dropWhile is_white_space s)))"

text \<open>
  \<open>a || d\<close> where \<open>a\<close> is a string, \<open>null\<close> or \<open>undefined\<close> (\<open>None\<close>): the empty
  string is falsy as well. \<open>or_else\<close> is the case of a string literal on the right,
  \<open>or_opt\<close> the general one, so that \<open>a || null\<close> is \<open>or_opt a None\<close>.
\<close>

definition or_else :: "jsstring option \<Rightarrow> jsstring \<Rightarrow> jsstring" where
  "or_else a d = (case a of None \<Rightarrow> d | Some s \<Rightarrow> if s = [] then d else s)"

definition or_opt :: "jsstring option \<Rightarrow> jsstring option \<Rightarrow> jsstring option" where
  "or_opt a b = (case a of None \<Rightarrow> b | Some s \<Rightarrow> if s = [] then b else Some s)"

section \<open>The two regular expressions\<close>

text \<open>
  \<open>/title\/(.*?)\/?$/\<close> and \<open>/chapter\/(.*?)\/?$/\<close> differ in their literal prefix
  only. The matcher below is the backtracking matcher of ECMAScript written out for
  this shape of expression; each function is one piece of the pattern.

  \<open>opt_slash_then_end\<close> is \<open>\/?$\<close>: the greedy optional slash is tried first, then
  the empty alternative; \<open>$\<close> (no \<open>m\<close> flag) holds at the end of the input only.
\<close>

fun opt_slash_then_end :: "jsstring \<Rightarrow> bool" where
  "opt_slash_then_end [] = True"
| "opt_slash_then_end (c # cs) = (c = of_char CHR ''/'' \<and> cs = [])"

text \<open>
  \<open>lazy_dot_star acc s\<close> is \<open>(.*?)\/?$\<close> with \<open>acc\<close> captured so far: the lazy star
  first tries the rest of the pattern, and only when that fails takes one more code
  unit, which must not be a line terminator.
\<close>

fun lazy_dot_star :: "jsstring \<Rightarrow> jsstring \<Rightarrow> jsstring option" where
  "lazy_dot_star acc [] = (if opt_slash_then_end [] then Some acc else None)"
| "lazy_dot_star acc (c # cs) =
     (if opt_slash_then_end (c # cs) then Some acc
      else if is_line_terminator c then None
      else lazy_dot_star (acc @ [c]) cs)"

text \<open>The literal prefix at the current position.\<close>

fun match_literal :: "jsstring \<Rightarrow> jsstring \<Rightarrow> jsstring option" where
  "match_literal [] s = Some s"
| "match_literal (l # ls) [] = None"
| "match_literal (l # ls) (c # cs) = (if l = c then match_literal ls cs else None)"

definition match_at :: "jsstring \<Rightarrow> jsstring \<Rightarrow> jsstring option" where
  "match_at lit s =
     (case match_literal lit s of None \<Rightarrow> None | Some rest \<Rightarrow> lazy_dot_star [] rest)"

text \<open>
  \<open>str.match(re)\<close> for a regular expression without the \<open>g\<close> flag: the match is
  tried at position 0, then 1, and so on up to the end of the string; the result is
  \<open>match[1]\<close>, the capture group, or \<open>None\<close> for \<open>null\<close>.
\<close>

fun regex_match :: "jsstring \<Rightarrow> jsstring \<Rightarrow> jsstring option" where
  "regex_match lit [] = match_at lit []"
| "regex_match lit (c # cs) =
     (case match_at lit (c # cs) of Some g \<Rightarrow> Some g | None \<Rightarrow> regex_match lit cs)"

definition title_re :: "jsstring \<Rightarrow> jsstring option" where
  "title_re href = regex_match (js ''title/'') href"

definition chapter_re :: "jsstring \<Rightarrow> jsstring option" where
  "chapter_re link = regex_match (js ''chapter/'') link"

text \<open>A string without its last code unit when that is a slash (used in statements only).\<close>

definition strip_slash :: "jsstring \<Rightarrow> jsstring" where
  "strip_slash s = (if s \<noteq> [] \<and> last s = of_char CHR ''/'' then butlast s else s)"

section \<open>The rendered DOM\<close>

text \<open>
  An element has a tag name, the tokens of its class attribute, its other attributes
  and its child nodes. The source uses two kinds of selector: \<open>.name\<close> and the type
  selector \<open>a\<close>.
\<close>

datatype node =
  Element (tag_name: jsstring) (class_list: "jsstring list")
    (attributes: "(jsstring \<times> jsstring) list") (child_nodes: "node list")
| Text_node jsstring

type_synonym document = "node list"

datatype selector = Class_sel jsstring | Tag_sel jsstring

fun textContent :: "node \<Rightarrow> jsstring" where
  "textContent (Text_node s) = s"
| "textContent (Element t cl as ks) = concat (map textContent ks)"

fun getAttribute :: "node \<Rightarrow> jsstring \<Rightarrow> jsstring option" where
  "getAttribute (Text_node s) name = None"
| "getAttribute (Element t cl as ks) name = map_of as name"

fun matches :: "selector \<Rightarrow> node \<Rightarrow> bool" where
  "matches sel (Text_node s) = False"
| "matches (Class_sel c) (Element t cl as ks) = (c \<in> set cl)"
| "matches (Tag_sel n) (Element t cl as ks) = (t = n)"

text \<open>The descendants of a node in document order (preorder).\<close>

fun descendants :: "node \<Rightarrow> node list" where
  "descendants (Text_node s) = []"
| "descendants (Element t cl as ks) = concat (map (\<lambda>k. k # descendants k) ks)"

definition el_querySelectorAll :: "node \<Rightarrow> selector \<Rightarrow> node list" where
  "el_querySelectorAll el sel = filter (matches sel) (descendants el)"

definition el_querySelector :: "node \<Rightarrow> selector \<Rightarrow> node option" where
  "el_querySelector el sel =
     (case el_querySelectorAll el sel of [] \<Rightarrow> None | x # xs \<Rightarrow> Some x)"

definition querySelectorAll :: "document \<Rightarrow> selector \<Rightarrow> node list" where
  "querySelectorAll doc sel =
     filter (matches sel) (concat (map (\<lambda>k. k # descendants k) doc))"

definition querySelector :: "document \<Rightarrow> selector \<Rightarrow> node option" where
  "querySelector doc sel =
     (case querySelectorAll doc sel of [] \<Rightarrow> None | x # xs \<Rightarrow> Some x)"

text \<open>\<open>x?.textContent?.trim()\<close> and \<open>x?.getAttribute(name)\<close> on an optional element.\<close>

definition trimmed_text :: "node option \<Rightarrow> jsstring option" where
  "trimmed_text x = map_option (\<lambda>el. trim (textContent el)) x"

definition attribute_of :: "node option \<Rightarrow> jsstring \<Rightarrow> jsstring option" where
  "attribute_of x name = (case x of None \<Rightarrow> None | Some el \<Rightarrow> getAttribute el name)"

section \<open>Output records\<close>

text \<open>
  The JSDoc types of the source. Fields that the code fills with \<open>... || null\<close> or
  initialises to \<open>null\<close> are options, whatever the JSDoc says.
\<close>

record SearchResult =
  title :: jsstring
  manga_id :: jsstring
  image :: "jsstring option"
  latest_chapter :: jsstring
  rating :: jsstring

record ChapterImage =
  pageNumber :: nat
  imageUrl :: "jsstring option"

record ChapterData =
  title :: jsstring
  images :: "ChapterImage list"
  prev_chapter :: "jsstring option"
  next_chapter :: "jsstring option"

record Chapter =
  number :: jsstring
  title :: jsstring
  uploadDate :: jsstring
  url :: jsstring

record MangaDetail =
  title :: jsstring
  image :: "jsstring option"
  description :: jsstring
  author :: jsstring
  genres :: "jsstring list"
  rating :: jsstring
  chapters :: "Chapter list"

section \<open>The three extraction scripts\<close>

text \<open>
  The identifier of a search result: \<open>let mangaId = ''\<close>, overwritten with
  \<open>match[1]\<close> when \<open>url.match(/title\/(.*?)\/?$/)\<close> is not \<open>null\<close>.
\<close>

definition manga_id_of_url :: "jsstring \<Rightarrow> jsstring" where
  "manga_id_of_url href = (case title_re href of None \<Rightarrow> [] | Some g \<Rightarrow> g)"

text \<open>The callback of \<open>page.evaluate\<close> in \<open>searchManga\<close>, for one \<open>.manga-card\<close>.\<close>

definition search_card :: "node \<Rightarrow> SearchResult" where
  "search_card el =
     (let title = or_else (trimmed_text (el_querySelector el (Class_sel (js ''manga-title''))))
                    (js ''Unknown Title'');
          url = or_else (attribute_of (el_querySelector el (Tag_sel (js ''a''))) (js ''href''))
                    (js ''#'');
          thumbnail = or_opt (attribute_of (el_querySelector el (Class_sel (js ''thumbnail'')))
                    (js ''src'')) None;
          latestChapter = or_else
                    (trimmed_text (el_querySelector el (Class_sel (js ''latest-chapter'')))) [];
          rating = or_else (trimmed_text (el_querySelector el (Class_sel (js ''rating'')))) [];
          mangaId = manga_id_of_url url
      in \<lparr> SearchResult.title = title, manga_id = mangaId, image = thumbnail,
           latest_chapter = latestChapter, rating = rating \<rparr>)"

definition search_evaluate :: "document \<Rightarrow> SearchResult list" where
  "search_evaluate doc = map search_card (querySelectorAll doc (Class_sel (js ''manga-card'')))"

text \<open>The callback of \<open>page.evaluate\<close> in \<open>scrapeMangaDetails\<close>.\<close>

definition detail_chapter :: "node \<Rightarrow> Chapter" where
  "detail_chapter el =
     \<lparr> number = or_else (trimmed_text (el_querySelector el (Class_sel (js ''chapter-number''))))
                  (js ''Unknown''),
       Chapter.title = or_else (trimmed_text (el_querySelector el (Class_sel (js ''chapter-title''))))
                  (js ''No title''),
       uploadDate = or_else (trimmed_text (el_querySelector el (Class_sel (js ''upload-date''))))
                  (js ''Unknown date''),
       url = or_else (attribute_of (el_querySelector el (Tag_sel (js ''a''))) (js ''href''))
                  (js ''#'') \<rparr>"

definition detail_evaluate :: "document \<Rightarrow> MangaDetail" where
  "detail_evaluate doc =
     (let title = or_else (trimmed_text (querySelector doc (Class_sel (js ''manga-title''))))
                    (js ''Unknown Title'');
          description = or_else
                    (trimmed_text (querySelector doc (Class_sel (js ''manga-description''))))
                    (js ''No description available'');
          author = or_else (trimmed_text (querySelector doc (Class_sel (js ''author-name''))))
                    (js ''Unknown Author'');
          genreElements = querySelectorAll doc (Class_sel (js ''genre-tag''));
          genres = map (\<lambda>el. trim (textContent el)) genreElements;
          rating = or_else (trimmed_text (querySelector doc (Class_sel (js ''rating-value''))))
                    (js ''No rating'');
          coverImage = or_opt (attribute_of (querySelector doc (Class_sel (js ''cover-image'')))
                    (js ''src'')) None;
          chapterElements = querySelectorAll doc (Class_sel (js ''chapter-item''));
          chapters = map detail_chapter chapterElements
      in \<lparr> MangaDetail.title = title, image = coverImage, description = description,
           author = author, genres = genres, rating = rating, chapters = chapters \<rparr>)"

text \<open>
  The callback of \<open>page.evaluate\<close> in \<open>getChapterData\<close>. \<open>Array.prototype.map\<close> passes
  the index as second argument; \<open>enumerate 0\<close> pairs each element with it.
\<close>

definition chapter_image :: "nat \<times> node \<Rightarrow> ChapterImage" where
  "chapter_image p =
     (case p of (index, el) \<Rightarrow>
        \<lparr> pageNumber = index + 1,
          imageUrl = or_opt (or_opt (getAttribute el (js ''src''))
                       (getAttribute el (js ''data-src''))) None \<rparr>)"

text \<open>
  \<open>let prevChapter = null; if (prevLink) { const m = prevLink.match(/chapter\/(.*?)\/?$/);
  if (m) prevChapter = m[1] }\<close>, and the same for the next link.
\<close>

definition chapter_id_of_link :: "jsstring option \<Rightarrow> jsstring option" where
  "chapter_id_of_link link =
     (case link of None \<Rightarrow> None
      | Some l \<Rightarrow> if l = [] then None
                  else (case chapter_re l of None \<Rightarrow> None | Some g \<Rightarrow> Some g))"

definition chapter_evaluate :: "document \<Rightarrow> ChapterData" where
  "chapter_evaluate doc =
     (let title = or_else (trimmed_text (querySelector doc (Class_sel (js ''chapter-title''))))
                    (js ''Unknown Chapter'');
          imageElements = querySelectorAll doc (Class_sel (js ''page-image''));
          images = map chapter_image (enumerate 0 imageElements);
          prevLink = attribute_of (querySelector doc (Class_sel (js ''prev-chapter''))) (js ''href'');
          nextLink = attribute_of (querySelector doc (Class_sel (js ''next-chapter''))) (js ''href'');
          prevChapter = chapter_id_of_link prevLink;
          nextChapter = chapter_id_of_link nextLink
      in \<lparr> ChapterData.title = title, images = images, prev_chapter = prevChapter,
           next_chapter = nextChapter \<rparr>)"

section \<open>Errors, effects and the browser\<close>

text \<open>
  A thrown JavaScript error: its class name and its \<open>message\<close>.
\<close>

datatype js_error = JsError (error_name: string) (message: jsstring)

text \<open>
  Every call into the browser automation engine, every delay and every
  \<open>console.error\<close> is appended to a trace when it is made.
\<close>

datatype event =
  Delay nat
| Launch
| NewPage
| SetViewport nat nat
| SetUserAgent jsstring
| Goto jsstring
| WaitForSelector selector
| Evaluate
| Close
| ConsoleError jsstring js_error

text \<open>
  What lies outside the program: the environment variable \<open>NODE_ENV\<close>, how each
  call of the engine ends (\<open>None\<close>: it resolves; \<open>Some e\<close>: it rejects with \<open>e\<close>), the
  document that a navigation renders, and the two URI built-ins of the runtime,
  which throw a \<open>URIError\<close> on some arguments.
\<close>

record world =
  production :: bool
  launch_result :: "js_error option"
  newPage_result :: "js_error option"
  setViewport_result :: "js_error option"
  setUserAgent_result :: "js_error option"
  goto_result :: "jsstring \<Rightarrow> js_error + document"
  evaluate_result :: "js_error option"
  close_result :: "js_error option"
  encodeURIComponent :: "jsstring \<Rightarrow> js_error + jsstring"
  decodeURIComponent :: "jsstring \<Rightarrow> js_error + jsstring"

text \<open>
  An asynchronous computation takes the trace so far and gives back its completion,
  \<open>Inl\<close> for a thrown error (a rejected promise) and \<open>Inr\<close> for a value, with the
  extended trace.
\<close>

type_synonym 'a io = "event list \<Rightarrow> (js_error + 'a) \<times> event list"

definition return_io :: "'a \<Rightarrow> 'a io" where
  "return_io v = (\<lambda>t. (Inr v, t))"

definition throw_io :: "js_error \<Rightarrow> 'a io" where
  "throw_io e = (\<lambda>t. (Inl e, t))"

definition bind_io :: "'a io \<Rightarrow> ('a \<Rightarrow> 'b io) \<Rightarrow> 'b io" where
  "bind_io m f = (\<lambda>t. case m t of (Inl e, t') \<Rightarrow> (Inl e, t') | (Inr v, t') \<Rightarrow> f v t')"

text \<open>A built-in that returns or throws without any other effect.\<close>

definition lift_io :: "js_error + 'a \<Rightarrow> 'a io" where
  "lift_io r = (\<lambda>t. (r, t))"

text \<open>A call of the engine: it is recorded, then it resolves or rejects.\<close>

definition call :: "event \<Rightarrow> js_error option \<Rightarrow> unit io" where
  "call ev outcome = (\<lambda>t. (case outcome of None \<Rightarrow> Inr () | Some e \<Rightarrow> Inl e, t @ [ev]))"

text \<open>
  \<open>try { body } catch (error) { handler } finally { finalizer }\<close>: the finalizer runs
  after the body, or after the handler when the body threw; when the finalizer
  throws, its error replaces the completion reached so far.
\<close>

definition try_catch_finally :: "'a io \<Rightarrow> (js_error \<Rightarrow> 'a io) \<Rightarrow> unit io \<Rightarrow> 'a io" where
  "try_catch_finally body handler finalizer =
     (\<lambda>t. case (case body t of (Inl e, t1) \<Rightarrow> handler e t1 | (Inr v, t1) \<Rightarrow> (Inr v, t1)) of
             (r, t2) \<Rightarrow> (case finalizer t2 of (Inl e', t3) \<Rightarrow> (Inl e', t3)
                                             | (Inr u, t3) \<Rightarrow> (r, t3)))"

definition console_error :: "jsstring \<Rightarrow> js_error \<Rightarrow> unit io" where
  "console_error label error = (\<lambda>t. (Inr (), t @ [ConsoleError label error]))"

definition delay :: "nat \<Rightarrow> unit io" where
  "delay ms = call (Delay ms) None"

text \<open>
  \<open>launchBrowser\<close>. The module binds \<open>chrome-aws-lambda\<close> to the name \<open>chromium\<close>, so
  in production the read of \<open>chrome.executablePath\<close> throws a \<open>ReferenceError\<close>
  before \<open>puppeteer.launch\<close> is reached.
\<close>

definition launchBrowser :: "world \<Rightarrow> unit io" where
  "launchBrowser w =
     (if production w then throw_io (JsError ''ReferenceError'' (js ''chrome is not defined''))
      else call Launch (launch_result w))"

definition user_agent :: jsstring where
  "user_agent = js (''Mozilla/5.0 (Windows NT 10.0; Win64; x64) AppleWebKit/537.36 '' @
                    ''(KHTML, like Gecko) Chrome/91.0.4472.124 Safari/537.36'')"

definition goto :: "world \<Rightarrow> jsstring \<Rightarrow> document io" where
  "goto w target = (\<lambda>t. (goto_result w target, t @ [Goto target]))"

text \<open>
  \<open>page.waitForSelector\<close> on the rendered document: it resolves when an element
  matches and rejects with a timeout error when none does. The text of that error
  is the engine's and nothing below depends on it. A navigation renders one
  document, which the wait and the extraction after it both read: a page whose
  elements change between these two awaits is outside this model.
\<close>

definition waitForSelector :: "document \<Rightarrow> selector \<Rightarrow> unit io" where
  "waitForSelector doc sel =
     call (WaitForSelector sel)
       (if querySelectorAll doc sel = []
        then Some (JsError ''TimeoutError'' (js ''waiting for selector failed: timeout 30000ms exceeded''))
        else None)"

definition evaluate :: "world \<Rightarrow> 'a \<Rightarrow> 'a io" where
  "evaluate w v = bind_io (call Evaluate (evaluate_result w)) (\<lambda>u. return_io v)"

text \<open>The common opening of the three pipelines, up to the navigation.\<close>

definition open_page :: "world \<Rightarrow> unit io" where
  "open_page w =
     bind_io (call NewPage (newPage_result w)) (\<lambda>u.
     bind_io (call (SetViewport 1280 800) (setViewport_result w)) (\<lambda>u.
     call (SetUserAgent user_agent) (setUserAgent_result w)))"

section \<open>The three pipelines\<close>

text \<open>
  Each pipeline is \<open>const browser = await launchBrowser(); try { ... } catch (error)
  { console.error(label, error); throw new Error(`intro${error.message}`) } finally
  { await browser.close() }\<close>. The \<open>catch\<close> block is the same up to its two strings.
\<close>

definition rethrow :: "jsstring \<Rightarrow> jsstring \<Rightarrow> js_error \<Rightarrow> 'a io" where
  "rethrow label intro error =
     bind_io (console_error label error) (\<lambda>u.
     throw_io (JsError ''Error'' (intro @ message error)))"

text \<open>The \<open>try\<close> block of \<open>scrapeMangaDetails\<close>.\<close>

definition scrape_try :: "world \<Rightarrow> jsstring \<Rightarrow> MangaDetail io" where
  "scrape_try w mangaUrl =
     bind_io (open_page w) (\<lambda>u.
     bind_io (goto w mangaUrl) (\<lambda>doc.
     bind_io (waitForSelector doc (Class_sel (js ''manga-container''))) (\<lambda>u.
     evaluate w (detail_evaluate doc))))"

definition scrapeMangaDetails :: "world \<Rightarrow> jsstring \<Rightarrow> MangaDetail io" where
  "scrapeMangaDetails w mangaUrl =
     bind_io (launchBrowser w) (\<lambda>browser.
       try_catch_finally (scrape_try w mangaUrl)
         (rethrow (js ''Error scraping manga:'') (js ''Failed to scrape manga: ''))
         (call Close (close_result w)))"

text \<open>The \<open>try\<close> block of \<open>searchManga\<close>.\<close>

definition search_try :: "world \<Rightarrow> jsstring \<Rightarrow> SearchResult list io" where
  "search_try w searchTerm =
     bind_io (open_page w) (\<lambda>u.
     bind_io (lift_io (encodeURIComponent w searchTerm)) (\<lambda>q.
     bind_io (goto w (js ''https://mangadex.org/search?q='' @ q)) (\<lambda>doc.
     bind_io (waitForSelector doc (Class_sel (js ''manga-card''))) (\<lambda>u.
     evaluate w (search_evaluate doc)))))"

definition searchManga :: "world \<Rightarrow> jsstring \<Rightarrow> SearchResult list io" where
  "searchManga w searchTerm =
     bind_io (launchBrowser w) (\<lambda>browser.
       try_catch_finally (search_try w searchTerm)
         (rethrow (js ''Error searching manga:'') (js ''Failed to search manga: ''))
         (call Close (close_result w)))"

text \<open>The \<open>try\<close> block of \<open>getChapterData\<close>.\<close>

definition chapter_try :: "world \<Rightarrow> jsstring \<Rightarrow> ChapterData io" where
  "chapter_try w chapterUrl =
     bind_io (open_page w) (\<lambda>u.
     bind_io (goto w chapterUrl) (\<lambda>doc.
     bind_io (waitForSelector doc (Class_sel (js ''page-container''))) (\<lambda>u.
     evaluate w (chapter_evaluate doc))))"

definition getChapterData :: "world \<Rightarrow> jsstring \<Rightarrow> ChapterData io" where
  "getChapterData w chapterUrl =
     bind_io (launchBrowser w) (\<lambda>browser.
       try_catch_finally (chapter_try w chapterUrl)
         (rethrow (js ''Error getting chapter pages:'') (js ''Failed to get chapter pages: ''))
         (call Close (close_result w)))"

section \<open>Responses and route handlers\<close>

datatype json =
  JNull
| JString jsstring
| JNumber nat
| JArray "json list"
| JObject "(string \<times> json) list"

record response =
  status :: nat
  body :: json

definition json_of_nullable :: "jsstring option \<Rightarrow> json" where
  "json_of_nullable x = (case x of None \<Rightarrow> JNull | Some s \<Rightarrow> JString s)"

definition json_of_SearchResult :: "SearchResult \<Rightarrow> json" where
  "json_of_SearchResult r =
     JObject [(''title'', JString (SearchResult.title r)),
              (''manga_id'', JString (manga_id r)),
              (''image'', json_of_nullable (SearchResult.image r)),
              (''latest_chapter'', JString (latest_chapter r)),
              (''rating'', JString (SearchResult.rating r))]"

definition json_of_ChapterImage :: "ChapterImage \<Rightarrow> json" where
  "json_of_ChapterImage i =
     JObject [(''pageNumber'', JNumber (pageNumber i)),
              (''imageUrl'', json_of_nullable (imageUrl i))]"

definition json_of_ChapterData :: "ChapterData \<Rightarrow> json" where
  "json_of_ChapterData d =
     JObject [(''title'', JString (ChapterData.title d)),
              (''images'', JArray (map json_of_ChapterImage (images d))),
              (''prev_chapter'', json_of_nullable (prev_chapter d)),
              (''next_chapter'', json_of_nullable (next_chapter d))]"

definition json_of_Chapter :: "Chapter \<Rightarrow> json" where
  "json_of_Chapter c =
     JObject [(''number'', JString (number c)),
              (''title'', JString (Chapter.title c)),
              (''uploadDate'', JString (uploadDate c)),
              (''url'', JString (url c))]"

definition json_of_MangaDetail :: "MangaDetail \<Rightarrow> json" where
  "json_of_MangaDetail d =
     JObject [(''title'', JString (MangaDetail.title d)),
              (''image'', json_of_nullable (MangaDetail.image d)),
              (''description'', JString (description d)),
              (''author'', JString (author d)),
              (''genres'', JArray (map JString (genres d))),
              (''rating'', JString (MangaDetail.rating d)),
              (''chapters'', JArray (map json_of_Chapter (chapters d)))]"

text \<open>
  A route handler runs its \<open>try\<close> block; \<open>res.json\<close> replies with status 200, the
  \<open>catch\<close> block logs the error and replies with status 500. The result is the
  response and the trace.
\<close>

definition search_route :: "world \<Rightarrow> jsstring \<Rightarrow> event list \<Rightarrow> response \<times> event list" where
  "search_route w query t =
     (case bind_io (delay 1500) (\<lambda>u. searchManga w query) t of
        (Inr results, t') \<Rightarrow>
          (\<lparr> status = 200,
             body = JObject [(''results'', JArray (map json_of_SearchResult results))] \<rparr>, t')
      | (Inl error, t') \<Rightarrow>
          (\<lparr> status = 500,
             body = JObject [(''error'', JString (js ''An error occurred during the search.''))] \<rparr>,
           t' @ [ConsoleError (js ''Search error:'') error]))"

definition read_route :: "world \<Rightarrow> jsstring \<Rightarrow> event list \<Rightarrow> response \<times> event list" where
  "read_route w chapterId t =
     (case bind_io (delay 1000) (\<lambda>u.
           bind_io (lift_io (decodeURIComponent w chapterId)) (\<lambda>decodedChapterId.
           getChapterData w (js ''https://mangadex.org/chapter/'' @ decodedChapterId))) t of
        (Inr chapterData, t') \<Rightarrow>
          (\<lparr> status = 200, body = json_of_ChapterData chapterData \<rparr>, t')
      | (Inl error, t') \<Rightarrow>
          (\<lparr> status = 500,
             body = JObject [(''error'', JString (js ''An error occurred while fetching the chapter.'')),
                             (''images'', JArray []),
                             (''prev_chapter'', JNull),
                             (''next_chapter'', JNull)] \<rparr>,
           t' @ [ConsoleError (js ''Reader error:'') error]))"

definition detail_route :: "world \<Rightarrow> jsstring \<Rightarrow> event list \<Rightarrow> response \<times> event list" where
  "detail_route w mangaId t =
     (case bind_io (delay 1000) (\<lambda>u.
           scrapeMangaDetails w (js ''https://mangadex.org/title/'' @ mangaId)) t of
        (Inr mangaDetails, t') \<Rightarrow>
          (\<lparr> status = 200, body = json_of_MangaDetail mangaDetails \<rparr>, t')
      | (Inl error, t') \<Rightarrow>
          (\<lparr> status = 500,
             body = JObject [(''error'', JString (js ''An error occurred while fetching manga details.''))] \<rparr>,
           t' @ [ConsoleError (js ''Manga detail error:'') error]))"

section \<open>Statement vocabulary and example inputs\<close>

text \<open>
  A computation is oblivious when its completion and the events it appends do not
  depend on the trace it starts from; it is quiet when, in addition, it never closes
  the browser.
\<close>

definition oblivious :: "'a io \<Rightarrow> bool" where
  "oblivious m = (\<forall>t. m t = (fst (m []), t @ snd (m [])))"

definition quiet :: "'a io \<Rightarrow> bool" where
  "quiet m = (oblivious m \<and> Close \<notin> set (snd (m [])))"

text \<open>
  The browser was launched: \<open>launchBrowser\<close> returned a session. The navigation is
  reached: the session was launched and the three calls before \<open>page.goto\<close> resolved.
\<close>

definition launched :: "world \<Rightarrow> bool" where
  "launched w = (\<not> production w \<and> launch_result w = None)"

definition reaches_navigation :: "world \<Rightarrow> bool" where
  "reaches_navigation w =
     (launched w \<and> newPage_result w = None \<and> setViewport_result w = None
      \<and> setUserAgent_result w = None)"

text \<open>The targets of the navigations recorded in a trace, in order.\<close>

fun goto_urls :: "event list \<Rightarrow> jsstring list" where
  "goto_urls [] = []"
| "goto_urls (Goto u # t) = u # goto_urls t"
| "goto_urls (ev # t) = goto_urls t"

text \<open>
  A world outside production in which every call of the engine resolves, every
  navigation renders the given document, and the URI built-ins leave their argument
  unchanged (as they do on letters and digits).
\<close>

definition example_world :: "document \<Rightarrow> world" where
  "example_world doc =
     \<lparr> production = False, launch_result = None, newPage_result = None,
       setViewport_result = None, setUserAgent_result = None,
       goto_result = (\<lambda>target. Inr doc), evaluate_result = None, close_result = None,
       encodeURIComponent = Inr, decodeURIComponent = Inr \<rparr>"

text \<open>A page without any card, and a search page with one filled and one empty card.\<close>

definition example_empty_page :: document where
  "example_empty_page = [Element (js ''html'') [] [] [Element (js ''body'') [] [] []]]"

definition example_empty_card :: node where
  "example_empty_card = Element (js ''div'') [js ''manga-card''] [] []"

definition example_plain_card :: node where
  "example_plain_card =
     Element (js ''div'') [js ''manga-card''] []
       [Element (js ''a'') [] [(js ''href'', js ''/manga/m1'')] []]"

definition example_search_page :: document where
  "example_search_page =
     [Element (js ''body'') [] []
        [Element (js ''div'') [js ''manga-card''] []
           [Element (js ''a'') [] [(js ''href'', js ''/title/m1/'')]
              [Element (js ''span'') [js ''manga-title''] [] [Text_node (js '' Naruto '')]]],
         example_empty_card]]"

text \<open>
  A chapter page with three page images, the second without \<open>src\<close> and \<open>data-src\<close>,
  and two navigation links that do not lead to a chapter.
\<close>

definition example_chapter_page :: document where
  "example_chapter_page =
     [Element (js ''body'') [] []
        [Element (js ''div'') [js ''page-container''] []
           [Element (js ''img'') [js ''page-image''] [(js ''src'', js ''p1.png'')] [],
            Element (js ''img'') [js ''page-image''] [] [],
            Element (js ''img'') [js ''page-image''] [(js ''data-src'', js ''p3.png'')] []],
         Element (js ''a'') [js ''prev-chapter''] [(js ''href'', js ''#'')] [],
         Element (js ''a'') [js ''next-chapter''] [(js ''href'', js ''/manga/m1'')] []]]"

text \<open>A detail page with one chapter item that has no children, and nothing else.\<close>

definition example_detail_page :: document where
  "example_detail_page =
     [Element (js ''body'') [] []
        [Element (js ''div'') [js ''manga-container''] []
           [Element (js ''li'') [js ''chapter-item''] [] []]]]"

section \<open>What the regular expressions compute\<close>

lemma lazy_dot_star_eq:
  "lazy_dot_star acc s =
     (if \<exists>c \<in> set (strip_slash s). is_line_terminator c then None
      else Some (acc @ strip_slash s))"
proof (induction s arbitrary: acc)
  case Nil
  then show ?case by (simp add: strip_slash_def)
next
  case (Cons c cs)
  show ?case
  proof (cases "cs = []")
    case True
    then show ?thesis by (auto simp: strip_slash_def)
  next
    case False
    then have "strip_slash (c # cs) = c # strip_slash cs"
      by (simp add: strip_slash_def)
    with False Cons show ?thesis by auto
  qed
qed

lemma match_literal_eq: "match_literal lit s = Some rest \<longleftrightarrow> s = lit @ rest"
  by (induction lit s rule: match_literal.induct) auto

lemma match_literal_None: "match_literal lit s = None \<longleftrightarrow> \<not> prefix lit s"
  by (induction lit s rule: match_literal.induct) auto

lemma match_at_app: "match_at lit (lit @ rest) = lazy_dot_star [] rest"
  using match_literal_eq [of lit "lit @ rest" rest] by (simp add: match_at_def)

lemma match_at_no_prefix: "\<not> prefix lit s \<Longrightarrow> match_at lit s = None"
  using match_literal_None [of lit s] by (simp add: match_at_def)

lemma regex_match_skip:
  "(\<And>p q. pre = p @ q \<Longrightarrow> q \<noteq> [] \<Longrightarrow> \<not> prefix lit (q @ s)) \<Longrightarrow>
   regex_match lit (pre @ s) = regex_match lit s"
proof (induction pre)
  case Nil
  then show ?case by simp
next
  case (Cons a pre)
  have "\<not> prefix lit ((a # pre) @ s)" using Cons.prems [of "[]" "a # pre"] by simp
  then have "match_at lit (a # pre @ s) = None" using match_at_no_prefix by simp
  moreover have "regex_match lit (pre @ s) = regex_match lit s"
  proof (rule Cons.IH)
    fix p q assume "pre = p @ q" "q \<noteq> []"
    then show "\<not> prefix lit (q @ s)" using Cons.prems [of "a # p" q] by simp
  qed
  ultimately show ?case by simp
qed

lemma border_free:
  assumes "lit \<noteq> []" "last lit \<notin> set (butlast lit)" "\<not> sublist lit pre" "q \<noteq> []"
    "pre = p @ q"
  shows "\<not> prefix lit (q @ lit @ rest)"
proof
  assume pf: "prefix lit (q @ lit @ rest)"
  show False
  proof (cases "length lit \<le> length q")
    case True
    with pf have "prefix lit q" by (auto simp: prefix_append)
    then have "sublist lit (p @ q)"
      unfolding prefix_def sublist_def by blast
    with assms show False by simp
  next
    case False
    define k where "k = length lit - length q"
    from pf have "lit = take (length lit) (q @ lit @ rest)"
      by (metis append_eq_conv_conj prefix_def)
    with False have lit_eq: "lit = q @ take k lit"
      by (simp add: k_def)
    obtain a qs where q: "q = a # qs" using assms(4) by (cases q) auto
    have k: "0 < k" "k < length lit" using False by (auto simp: k_def q)
    then have "take k lit \<noteq> []" using assms(1) by auto
    with lit_eq have "last lit = last (take k lit)" by (metis last_appendR)
    also have "\<dots> \<in> set (take k lit)" using \<open>take k lit \<noteq> []\<close> by simp
    also have "take k lit = take k (butlast lit)" using k by (simp add: take_butlast)
    finally have "last lit \<in> set (butlast lit)" by (meson in_set_takeD)
    with assms show False by simp
  qed
qed

lemma regex_match_first:
  assumes "lit \<noteq> []" "last lit \<notin> set (butlast lit)" "\<not> sublist lit pre"
  shows "regex_match lit (pre @ lit @ rest) =
     (if \<exists>c \<in> set (strip_slash rest). is_line_terminator c then regex_match lit (tl (lit @ rest))
      else Some (strip_slash rest))"
proof -
  have "regex_match lit (pre @ lit @ rest) = regex_match lit (lit @ rest)"
    by (rule regex_match_skip) (use assms border_free in blast)
  moreover obtain l ls where "lit = l # ls" using assms(1) by (cases lit) auto
  ultimately show ?thesis
    using match_at_app [of lit rest] by (simp add: lazy_dot_star_eq)
qed

lemma title_lit: "js ''title/'' \<noteq> []" "last (js ''title/'') \<notin> set (butlast (js ''title/''))"
  by (simp_all add: js_def)

lemma chapter_lit: "js ''chapter/'' \<noteq> []"
  "last (js ''chapter/'') \<notin> set (butlast (js ''chapter/''))"
  by (simp_all add: js_def)


lemma manga_id_first:
  assumes "\<not> sublist (js ''title/'') pre" "\<forall>c \<in> set rest. \<not> is_line_terminator c"
  shows "manga_id_of_url (pre @ js ''title/'' @ rest) = strip_slash rest"
proof -
  have "\<forall>c \<in> set (strip_slash rest). \<not> is_line_terminator c"
    using assms(2) by (auto simp: strip_slash_def dest: in_set_butlastD)
  then show ?thesis
    using regex_match_first [OF title_lit assms(1), of rest]
    by (simp add: manga_id_of_url_def title_re_def)
qed

lemma chapter_id_first:
  assumes "\<not> sublist (js ''chapter/'') pre" "\<forall>c \<in> set rest. \<not> is_line_terminator c"
  shows "chapter_id_of_link (Some (pre @ js ''chapter/'' @ rest)) = Some (strip_slash rest)"
proof -
  have "\<forall>c \<in> set (strip_slash rest). \<not> is_line_terminator c"
    using assms(2) by (auto simp: strip_slash_def dest: in_set_butlastD)
  moreover have "js ''chapter/'' \<noteq> []" by (simp add: js_def)
  ultimately show ?thesis
    using regex_match_first [OF chapter_lit assms(1), of rest]
    by (simp add: chapter_id_of_link_def chapter_re_def)
qed

lemma strip_slash_id: "ident = [] \<or> last ident \<noteq> of_char CHR ''/'' \<Longrightarrow> strip_slash ident = ident"
  by (auto simp: strip_slash_def)

lemma strip_slash_snoc: "strip_slash (ident @ js ''/'') = ident"
  by (simp add: strip_slash_def js_def)

lemma strip_slash_line_terminator:
  "(\<exists>c \<in> set (strip_slash rest). is_line_terminator c) \<longleftrightarrow>
   (\<exists>c \<in> set rest. is_line_terminator c)"
proof (cases "rest \<noteq> [] \<and> last rest = of_char CHR ''/''")
  case True
  then have "rest = butlast rest @ [of_char CHR ''/'']"
    by (metis append_butlast_last_id)
  then have "set rest = insert (of_char CHR ''/'') (set (butlast rest))"
    by (metis Un_insert_right append_Nil2 list.simps(15) set_append)
  moreover have "\<not> is_line_terminator (of_char CHR ''/'')"
    by (simp add: is_line_terminator_def)
  ultimately show ?thesis using True by (auto simp: strip_slash_def)
next
  case False
  then show ?thesis by (auto simp: strip_slash_def)
qed

lemma match_at_None_iff:
  "match_at lit x = None \<longleftrightarrow>
   (\<forall>rest. x = lit @ rest \<longrightarrow> (\<exists>c \<in> set rest. is_line_terminator c))"
proof (cases "prefix lit x")
  case True
  then obtain r where x: "x = lit @ r" by (auto simp: prefix_def)
  have "match_at lit x = None \<longleftrightarrow> (\<exists>c \<in> set r. is_line_terminator c)"
    unfolding x match_at_app lazy_dot_star_eq strip_slash_line_terminator by simp
  then show ?thesis using x by auto
next
  case False
  then show ?thesis using match_at_no_prefix [of lit x] by (auto simp: prefix_def)
qed

text \<open>
  The expression fails exactly when every occurrence of its literal is followed,
  somewhere up to the end of the string, by a line terminator.
\<close>

lemma regex_match_None_iff:
  "regex_match lit s = None \<longleftrightarrow>
   (\<forall>pre rest. s = pre @ lit @ rest \<longrightarrow> (\<exists>c \<in> set rest. is_line_terminator c))"
proof (induction s)
  case Nil
  show ?case by (simp add: match_at_None_iff)
next
  case (Cons a s)
  have "regex_match lit (a # s) = None \<longleftrightarrow>
      match_at lit (a # s) = None \<and> regex_match lit s = None"
    by (simp split: option.splits)
  also have "\<dots> \<longleftrightarrow>
      (\<forall>rest. a # s = lit @ rest \<longrightarrow> (\<exists>c \<in> set rest. is_line_terminator c)) \<and>
      (\<forall>pre rest. s = pre @ lit @ rest \<longrightarrow> (\<exists>c \<in> set rest. is_line_terminator c))"
    by (simp only: match_at_None_iff Cons.IH)
  also have "\<dots> \<longleftrightarrow>
      (\<forall>pre rest. a # s = pre @ lit @ rest \<longrightarrow> (\<exists>c \<in> set rest. is_line_terminator c))"
  proof
    assume h: "(\<forall>rest. a # s = lit @ rest \<longrightarrow> (\<exists>c \<in> set rest. is_line_terminator c)) \<and>
      (\<forall>pre rest. s = pre @ lit @ rest \<longrightarrow> (\<exists>c \<in> set rest. is_line_terminator c))"
    show "\<forall>pre rest. a # s = pre @ lit @ rest \<longrightarrow> (\<exists>c \<in> set rest. is_line_terminator c)"
    proof (intro allI impI)
      fix pre rest assume eq: "a # s = pre @ lit @ rest"
      show "\<exists>c \<in> set rest. is_line_terminator c"
      proof (cases pre)
        case Nil
        with eq h show ?thesis by simp
      next
        case (Cons b pre')
        with eq have "s = pre' @ lit @ rest" by simp
        with h show ?thesis by blast
      qed
    qed
  next
    assume h: "\<forall>pre rest. a # s = pre @ lit @ rest \<longrightarrow> (\<exists>c \<in> set rest. is_line_terminator c)"
    have 1: "\<forall>rest. a # s = lit @ rest \<longrightarrow> (\<exists>c \<in> set rest. is_line_terminator c)"
      using h [rule_format, of "[]"] by simp
    have 2: "\<forall>pre rest. s = pre @ lit @ rest \<longrightarrow> (\<exists>c \<in> set rest. is_line_terminator c)"
    proof (intro allI impI)
      fix pre rest assume "s = pre @ lit @ rest"
      then have "a # s = (a # pre) @ lit @ rest" by simp
      with h show "\<exists>c \<in> set rest. is_line_terminator c" by blast
    qed
    from 1 2 show "(\<forall>rest. a # s = lit @ rest \<longrightarrow> (\<exists>c \<in> set rest. is_line_terminator c)) \<and>
      (\<forall>pre rest. s = pre @ lit @ rest \<longrightarrow> (\<exists>c \<in> set rest. is_line_terminator c))"
      by blast
  qed
  finally show ?case .
qed

text \<open>
  The same in the words of the pattern: no part of the string is the literal followed
  by an identifier without line terminator and, optionally, one slash, up to the end.
\<close>

lemma regex_match_None_pattern:
  "regex_match lit s = None \<longleftrightarrow>
   \<not> (\<exists>pre ident. (s = pre @ lit @ ident \<or> s = pre @ lit @ ident @ js ''/'') \<and>
         (\<forall>c \<in> set ident. \<not> is_line_terminator c))"
proof
  assume n: "regex_match lit s = None"
  show "\<not> (\<exists>pre ident. (s = pre @ lit @ ident \<or> s = pre @ lit @ ident @ js ''/'') \<and>
         (\<forall>c \<in> set ident. \<not> is_line_terminator c))"
  proof
    assume "\<exists>pre ident. (s = pre @ lit @ ident \<or> s = pre @ lit @ ident @ js ''/'') \<and>
         (\<forall>c \<in> set ident. \<not> is_line_terminator c)"
    then obtain pre ident where
      d: "s = pre @ lit @ ident \<or> s = pre @ lit @ ident @ js ''/''" and
      c: "\<forall>c \<in> set ident. \<not> is_line_terminator c"
      by blast
    have c': "\<forall>c \<in> set (ident @ js ''/''). \<not> is_line_terminator c"
      using c by (auto simp: js_def is_line_terminator_def)
    from d show False
    proof
      assume "s = pre @ lit @ ident"
      with n c show False unfolding regex_match_None_iff by blast
    next
      assume "s = pre @ lit @ ident @ js ''/''"
      with n c' show False unfolding regex_match_None_iff by blast
    qed
  qed
next
  assume "\<not> (\<exists>pre ident. (s = pre @ lit @ ident \<or> s = pre @ lit @ ident @ js ''/'') \<and>
         (\<forall>c \<in> set ident. \<not> is_line_terminator c))"
  then show "regex_match lit s = None"
    unfolding regex_match_None_iff by blast
qed

lemma not_sublist_no_pattern:
  "\<not> sublist lit s \<Longrightarrow>
   \<not> (\<exists>pre ident. (s = pre @ lit @ ident \<or> s = pre @ lit @ ident @ js ''/'') \<and>
         (\<forall>c \<in> set ident. \<not> is_line_terminator c))"
  unfolding sublist_def by blast

text \<open>The definitions that evaluate a query on a concrete document.\<close>

lemmas dom_eval = querySelector_def querySelectorAll_def el_querySelector_def
  el_querySelectorAll_def attribute_of_def trimmed_text_def js_def

section \<open>Identifier parsing\<close>

text \<open>
  Claim C2, as stated: for every href that ends in \<open>title/<id>\<close> or \<open>title/<id>/\<close>
  (for the chapter links, \<open>chapter/<id>\<close> or \<open>chapter/<id>/\<close>) the parser
  returns exactly \<open><id>\<close>. The regular expression is not anchored on the left, so
  the match starts at the first \<open>title/\<close> of the href: \<open>/title/a/title/b\<close> ends in
  \<open>title/b\<close> and the parser returns \<open>a/title/b\<close>.
\<close>

theorem identifier_of_last_segment_counterexample:
  "js ''/title/a/title/b'' = js ''/title/a/'' @ js ''title/'' @ js ''b'' \<and>
   manga_id_of_url (js ''/title/a/title/b'') = js ''a/title/b'' \<and>
   manga_id_of_url (js ''/title/a/title/b'') \<noteq> js ''b''"
  by (simp add: manga_id_of_url_def title_re_def match_at_def js_def is_line_terminator_def)

text \<open>
  Claim C2, amended: when the \<open>title/\<close> (or \<open>chapter/\<close>) in front of \<open><id>\<close> is the
  first one of the href, \<open><id>\<close> holds no line terminator and \<open><id>\<close> does not itself
  end in a slash, then the parser returns exactly \<open><id>\<close>, whether or not one slash
  follows it.
\<close>

theorem identifier_of_first_segment:
  "(\<not> sublist (js ''title/'') pre \<and> (\<forall>c \<in> set ident. \<not> is_line_terminator c) \<and>
      (ident = [] \<or> last ident \<noteq> of_char CHR ''/'') \<longrightarrow>
      manga_id_of_url (pre @ js ''title/'' @ ident) = ident \<and>
      manga_id_of_url (pre @ js ''title/'' @ ident @ js ''/'') = ident) \<and>
   (\<not> sublist (js ''chapter/'') pre \<and> (\<forall>c \<in> set ident. \<not> is_line_terminator c) \<and>
      (ident = [] \<or> last ident \<noteq> of_char CHR ''/'') \<longrightarrow>
      chapter_id_of_link (Some (pre @ js ''chapter/'' @ ident)) = Some ident \<and>
      chapter_id_of_link (Some (pre @ js ''chapter/'' @ ident @ js ''/'')) = Some ident)"
proof -
  have slash: "\<forall>c \<in> set ident. \<not> is_line_terminator c \<Longrightarrow>
      \<forall>c \<in> set (ident @ js ''/''). \<not> is_line_terminator c"
    by (auto simp: js_def is_line_terminator_def)
  show ?thesis
    using manga_id_first [of pre ident] manga_id_first [of pre "ident @ js ''/''"]
      chapter_id_first [of pre ident] chapter_id_first [of pre "ident @ js ''/''"]
      slash strip_slash_id [of ident] strip_slash_snoc [of ident]
    by auto
qed

theorem identifier_of_first_segment_witness:
  "manga_id_of_url (js ''https://mangadex.org/title/abc123'') = js ''abc123'' \<and>
   manga_id_of_url (js ''https://mangadex.org/title/abc123/'') = js ''abc123'' \<and>
   chapter_id_of_link (Some (js ''/chapter/abc123'')) = Some (js ''abc123'') \<and>
   chapter_id_of_link (Some (js ''/chapter/abc123/'')) = Some (js ''abc123'')"
proof -
  have 1: "\<not> sublist (js ''title/'') (js ''https://mangadex.org/'')" by code_simp
  have 2: "\<not> sublist (js ''chapter/'') (js ''/'')" by code_simp
  have 3: "\<forall>c \<in> set (js ''abc123''). \<not> is_line_terminator c"
    by (simp add: js_def is_line_terminator_def)
  have 4: "js ''abc123'' = [] \<or> last (js ''abc123'') \<noteq> of_char CHR ''/''"
    by (simp add: js_def)
  from identifier_of_first_segment [of "js ''https://mangadex.org/''" "js ''abc123''"] 1 3 4
  have a: "manga_id_of_url (js ''https://mangadex.org/'' @ js ''title/'' @ js ''abc123'') = js ''abc123'' \<and>
      manga_id_of_url (js ''https://mangadex.org/'' @ js ''title/'' @ js ''abc123'' @ js ''/'') = js ''abc123''"
    by blast
  from identifier_of_first_segment [of "js ''/''" "js ''abc123''"] 2 3 4
  have b: "chapter_id_of_link (Some (js ''/'' @ js ''chapter/'' @ js ''abc123'')) = Some (js ''abc123'') \<and>
      chapter_id_of_link (Some (js ''/'' @ js ''chapter/'' @ js ''abc123'' @ js ''/'')) = Some (js ''abc123'')"
    by blast
  from a b show ?thesis by (simp add: js_def)
qed

text \<open>
  Claim C3: an href matches the pattern when some part of it is \<open>title/\<close> (for a
  navigation link, \<open>chapter/\<close>) followed by an identifier and, optionally, one slash,
  up to the end of the string; the identifier is any sequence of code units other
  than line terminators, the empty one included. An href that does not match gives
  the search result the identifier \<open>''\<close> and gives a navigation link \<open>null\<close>, at the
  parsing step and at the three places where the records are built. A navigation link
  gives \<open>null\<close> in no other case (so \<open>/chapter/\<close>, which matches with the empty
  identifier, gives the empty string), and so does the absence of the link. Parsing
  is a total function of the href: it has no completion other than a value.
\<close>

theorem unmatched_href_gives_absent_value:
  "(\<not> (\<exists>pre ident.
         (href = pre @ js ''title/'' @ ident \<or> href = pre @ js ''title/'' @ ident @ js ''/'') \<and>
         (\<forall>c \<in> set ident. \<not> is_line_terminator c)) \<longrightarrow>
      manga_id_of_url href = [] \<and>
      (attribute_of (el_querySelector el (Tag_sel (js ''a''))) (js ''href'') = Some href \<longrightarrow>
         manga_id (search_card el) = [])) \<and>
   (\<not> (\<exists>pre ident.
         (href = pre @ js ''chapter/'' @ ident \<or> href = pre @ js ''chapter/'' @ ident @ js ''/'') \<and>
         (\<forall>c \<in> set ident. \<not> is_line_terminator c)) \<longrightarrow>
      chapter_id_of_link (Some href) = None \<and>
      (attribute_of (querySelector doc (Class_sel (js ''prev-chapter''))) (js ''href'') = Some href
         \<longrightarrow> prev_chapter (chapter_evaluate doc) = None) \<and>
      (attribute_of (querySelector doc (Class_sel (js ''next-chapter''))) (js ''href'') = Some href
         \<longrightarrow> next_chapter (chapter_evaluate doc) = None)) \<and>
   (chapter_id_of_link (Some href) = None \<longrightarrow>
      \<not> (\<exists>pre ident.
         (href = pre @ js ''chapter/'' @ ident \<or> href = pre @ js ''chapter/'' @ ident @ js ''/'') \<and>
         (\<forall>c \<in> set ident. \<not> is_line_terminator c))) \<and>
   chapter_id_of_link None = None"
proof -
  define T where "T \<longleftrightarrow> (\<exists>pre ident.
         (href = pre @ js ''title/'' @ ident \<or> href = pre @ js ''title/'' @ ident @ js ''/'') \<and>
         (\<forall>c \<in> set ident. \<not> is_line_terminator c))"
  define C where "C \<longleftrightarrow> (\<exists>pre ident.
         (href = pre @ js ''chapter/'' @ ident \<or> href = pre @ js ''chapter/'' @ ident @ js ''/'') \<and>
         (\<forall>c \<in> set ident. \<not> is_line_terminator c))"
  have title_None: "regex_match (js ''title/'') href = None \<longleftrightarrow> \<not> T"
    unfolding T_def by (rule regex_match_None_pattern)
  have chapter_None: "regex_match (js ''chapter/'') href = None \<longleftrightarrow> \<not> C"
    unfolding C_def by (rule regex_match_None_pattern)
  have hash: "manga_id_of_url (js ''#'') = []"
    by (simp add: manga_id_of_url_def title_re_def match_at_def js_def)
  have step: "manga_id_of_url href = []" if "\<not> T"
    using that title_None by (simp add: manga_id_of_url_def title_re_def)
  have card: "manga_id (search_card el) = []"
    if "\<not> T" "attribute_of (el_querySelector el (Tag_sel (js ''a''))) (js ''href'') = Some href"
    using that(2) hash step [OF that(1)] by (simp add: search_card_def Let_def or_else_def)
  have link: "chapter_id_of_link (Some href) = None" if "\<not> C"
    using that chapter_None by (simp add: chapter_id_of_link_def chapter_re_def)
  have prev: "prev_chapter (chapter_evaluate doc) = None"
    if "\<not> C"
      "attribute_of (querySelector doc (Class_sel (js ''prev-chapter''))) (js ''href'') = Some href"
    using link [OF that(1)] that(2) by (simp add: chapter_evaluate_def Let_def)
  have "next": "next_chapter (chapter_evaluate doc) = None"
    if "\<not> C"
      "attribute_of (querySelector doc (Class_sel (js ''next-chapter''))) (js ''href'') = Some href"
    using link [OF that(1)] that(2) by (simp add: chapter_evaluate_def Let_def)
  have conv: "\<not> C" if "chapter_id_of_link (Some href) = None"
  proof (cases "href = []")
    case True
    then show ?thesis unfolding C_def by (simp add: js_def)
  next
    case False
    with that have "regex_match (js ''chapter/'') href = None"
      by (simp add: chapter_id_of_link_def chapter_re_def split: option.splits)
    with chapter_None show ?thesis by simp
  qed
  have none: "chapter_id_of_link None = None"
    by (simp add: chapter_id_of_link_def)
  have "(\<not> T \<longrightarrow>
      manga_id_of_url href = [] \<and>
      (attribute_of (el_querySelector el (Tag_sel (js ''a''))) (js ''href'') = Some href \<longrightarrow>
         manga_id (search_card el) = [])) \<and>
   (\<not> C \<longrightarrow>
      chapter_id_of_link (Some href) = None \<and>
      (attribute_of (querySelector doc (Class_sel (js ''prev-chapter''))) (js ''href'') = Some href
         \<longrightarrow> prev_chapter (chapter_evaluate doc) = None) \<and>
      (attribute_of (querySelector doc (Class_sel (js ''next-chapter''))) (js ''href'') = Some href
         \<longrightarrow> next_chapter (chapter_evaluate doc) = None)) \<and>
   (chapter_id_of_link (Some href) = None \<longrightarrow> \<not> C) \<and>
   chapter_id_of_link None = None"
    using step card link prev "next" conv none by blast
  then show ?thesis unfolding T_def C_def .
qed

theorem unmatched_href_gives_absent_value_witness:
  "manga_id_of_url (js ''#'') = [] \<and>
   manga_id_of_url (js ''title/a'' @ [0x000A] @ js ''b'') = [] \<and>
   chapter_id_of_link (Some (js ''/manga/m1'')) = None \<and>
   chapter_id_of_link (Some (js ''/chapter/a'' @ [0x000D])) = None \<and>
   manga_id (search_card example_plain_card) = [] \<and>
   prev_chapter (chapter_evaluate example_chapter_page) = None \<and>
   next_chapter (chapter_evaluate example_chapter_page) = None \<and>
   (\<exists>pre ident. (js ''/chapter/'' = pre @ js ''chapter/'' @ ident \<or>
                  js ''/chapter/'' = pre @ js ''chapter/'' @ ident @ js ''/'') \<and>
                 (\<forall>c \<in> set ident. \<not> is_line_terminator c))"
proof -
  have t1: "\<not> (\<exists>pre ident.
         (js ''#'' = pre @ js ''title/'' @ ident \<or> js ''#'' = pre @ js ''title/'' @ ident @ js ''/'') \<and>
         (\<forall>c \<in> set ident. \<not> is_line_terminator c))"
    by (rule not_sublist_no_pattern) code_simp
  have t2: "\<not> (\<exists>pre ident.
         (js ''/manga/m1'' = pre @ js ''title/'' @ ident \<or>
          js ''/manga/m1'' = pre @ js ''title/'' @ ident @ js ''/'') \<and>
         (\<forall>c \<in> set ident. \<not> is_line_terminator c))"
    by (rule not_sublist_no_pattern) code_simp
  have t3: "\<not> (\<exists>pre ident.
         (js ''title/a'' @ [0x000A] @ js ''b'' = pre @ js ''title/'' @ ident \<or>
          js ''title/a'' @ [0x000A] @ js ''b'' = pre @ js ''title/'' @ ident @ js ''/'') \<and>
         (\<forall>c \<in> set ident. \<not> is_line_terminator c))"
    unfolding regex_match_None_pattern [symmetric]
    by (simp add: match_at_def js_def is_line_terminator_def)
  have c1: "\<not> (\<exists>pre ident.
         (js ''#'' = pre @ js ''chapter/'' @ ident \<or> js ''#'' = pre @ js ''chapter/'' @ ident @ js ''/'') \<and>
         (\<forall>c \<in> set ident. \<not> is_line_terminator c))"
    by (rule not_sublist_no_pattern) code_simp
  have c2: "\<not> (\<exists>pre ident.
         (js ''/manga/m1'' = pre @ js ''chapter/'' @ ident \<or>
          js ''/manga/m1'' = pre @ js ''chapter/'' @ ident @ js ''/'') \<and>
         (\<forall>c \<in> set ident. \<not> is_line_terminator c))"
    by (rule not_sublist_no_pattern) code_simp
  have c3: "\<not> (\<exists>pre ident.
         (js ''/chapter/a'' @ [0x000D] = pre @ js ''chapter/'' @ ident \<or>
          js ''/chapter/a'' @ [0x000D] = pre @ js ''chapter/'' @ ident @ js ''/'') \<and>
         (\<forall>c \<in> set ident. \<not> is_line_terminator c))"
    unfolding regex_match_None_pattern [symmetric]
    by (simp add: match_at_def js_def is_line_terminator_def)
  have c4: "chapter_id_of_link (Some (js ''/chapter/'')) \<noteq> None"
    by (simp add: chapter_id_of_link_def chapter_re_def match_at_def js_def)
  have a: "attribute_of (el_querySelector example_plain_card (Tag_sel (js ''a''))) (js ''href'')
      = Some (js ''/manga/m1'')"
    by (simp add: example_plain_card_def dom_eval)
  have p: "attribute_of (querySelector example_chapter_page (Class_sel (js ''prev-chapter'')))
      (js ''href'') = Some (js ''#'')"
    by (simp add: example_chapter_page_def dom_eval)
  have n: "attribute_of (querySelector example_chapter_page (Class_sel (js ''next-chapter'')))
      (js ''href'') = Some (js ''/manga/m1'')"
    by (simp add: example_chapter_page_def dom_eval)
  have w1: "manga_id_of_url (js ''#'') = []"
    using unmatched_href_gives_absent_value [of "js ''#''" example_plain_card example_chapter_page]
      t1 by blast
  have w2: "manga_id_of_url (js ''title/a'' @ [0x000A] @ js ''b'') = []"
    using unmatched_href_gives_absent_value [of "js ''title/a'' @ [0x000A] @ js ''b''"
        example_plain_card example_chapter_page] t3 by blast
  have w3: "chapter_id_of_link (Some (js ''/manga/m1'')) = None \<and>
      manga_id (search_card example_plain_card) = [] \<and>
      next_chapter (chapter_evaluate example_chapter_page) = None"
    using unmatched_href_gives_absent_value [of "js ''/manga/m1''" example_plain_card
        example_chapter_page] t2 c2 a n by blast
  have w4: "chapter_id_of_link (Some (js ''/chapter/a'' @ [0x000D])) = None"
    using unmatched_href_gives_absent_value [of "js ''/chapter/a'' @ [0x000D]"
        example_plain_card example_chapter_page] c3 by blast
  have w5: "prev_chapter (chapter_evaluate example_chapter_page) = None"
    using unmatched_href_gives_absent_value [of "js ''#''" example_plain_card example_chapter_page]
      c1 p by blast
  have w6: "\<exists>pre ident. (js ''/chapter/'' = pre @ js ''chapter/'' @ ident \<or>
                  js ''/chapter/'' = pre @ js ''chapter/'' @ ident @ js ''/'') \<and>
                 (\<forall>c \<in> set ident. \<not> is_line_terminator c)"
    using unmatched_href_gives_absent_value [of "js ''/chapter/''" example_plain_card
        example_chapter_page] c4 by blast
  from w1 w2 w3 w4 w5 w6 show ?thesis by blast
qed

section \<open>Chapter images\<close>

lemma images_chapter_evaluate:
  "images (chapter_evaluate doc) =
     map chapter_image (enumerate 0 (querySelectorAll doc (Class_sel (js ''page-image''))))"
  by (simp add: chapter_evaluate_def Let_def)

lemma pageNumber_chapter_image: "pageNumber (chapter_image p) = Suc (fst p)"
  by (cases p) (simp add: chapter_image_def)

lemma imageUrl_chapter_image:
  "imageUrl (chapter_image p) =
     or_opt (or_opt (getAttribute (snd p) (js ''src'')) (getAttribute (snd p) (js ''data-src''))) None"
  by (cases p) (simp add: chapter_image_def)

lemma pageNumber_enumerate:
  "map pageNumber (map chapter_image (enumerate n xs)) = map Suc [n ..< n + length xs]"
proof -
  have "map pageNumber (map chapter_image (enumerate n xs)) = map Suc (map fst (enumerate n xs))"
    unfolding map_map by (rule map_cong) (simp_all add: pageNumber_chapter_image)
  then show ?thesis by (simp only: map_fst_enumerate)
qed

lemma imageUrl_enumerate:
  "map imageUrl (map chapter_image (enumerate n xs)) =
     map (\<lambda>el. or_opt (or_opt (getAttribute el (js ''src'')) (getAttribute el (js ''data-src''))) None) xs"
proof -
  have "map imageUrl (map chapter_image (enumerate n xs)) =
      map (\<lambda>el. or_opt (or_opt (getAttribute el (js ''src'')) (getAttribute el (js ''data-src''))) None)
        (map snd (enumerate n xs))"
    unfolding map_map by (rule map_cong) (simp_all add: imageUrl_chapter_image)
  then show ?thesis by (simp only: map_snd_enumerate)
qed

lemma example_page_images:
  "querySelectorAll example_chapter_page (Class_sel (js ''page-image'')) =
     [Element (js ''img'') [js ''page-image''] [(js ''src'', js ''p1.png'')] [],
      Element (js ''img'') [js ''page-image''] [] [],
      Element (js ''img'') [js ''page-image''] [(js ''data-src'', js ''p3.png'')] []]"
  by (simp add: example_chapter_page_def dom_eval)

text \<open>
  Claim C5: on a chapter page with \<open>N\<close> elements of class \<open>page-image\<close>, \<open>N \<ge> 0\<close>,
  the page numbers of the extracted images are exactly \<open>1, ..., N\<close>, and the image
  at each position is the one read from the element at that position of the
  document order.
\<close>

theorem page_numbers_contiguous:
  "map pageNumber (images (chapter_evaluate doc)) =
     [1 ..< Suc (length (querySelectorAll doc (Class_sel (js ''page-image''))))] \<and>
   map imageUrl (images (chapter_evaluate doc)) =
     map (\<lambda>el. or_opt (or_opt (getAttribute el (js ''src'')) (getAttribute el (js ''data-src''))) None)
       (querySelectorAll doc (Class_sel (js ''page-image'')))"
  by (simp only: images_chapter_evaluate pageNumber_enumerate imageUrl_enumerate map_Suc_upt)
    simp

text \<open>
  Claim C10: the images are as many as the \<open>page-image\<close> elements; an element with
  neither \<open>src\<close> nor \<open>data-src\<close> stays in the sequence with \<open>imageUrl\<close> \<open>null\<close>, and
  the page number at every position is the position plus one, so that such an
  element uses up its number.
\<close>

theorem images_keep_every_node:
  "length (images (chapter_evaluate doc)) =
     length (querySelectorAll doc (Class_sel (js ''page-image''))) \<and>
   (\<forall>i < length (querySelectorAll doc (Class_sel (js ''page-image''))).
      pageNumber (images (chapter_evaluate doc) ! i) = i + 1 \<and>
      (getAttribute (querySelectorAll doc (Class_sel (js ''page-image'')) ! i) (js ''src'') = None \<and>
       getAttribute (querySelectorAll doc (Class_sel (js ''page-image'')) ! i) (js ''data-src'') = None
       \<longrightarrow> imageUrl (images (chapter_evaluate doc) ! i) = None))"
  by (simp add: images_chapter_evaluate nth_enumerate_eq pageNumber_chapter_image
      imageUrl_chapter_image or_opt_def)

theorem images_keep_every_node_witness:
  "length (images (chapter_evaluate example_chapter_page)) = 3 \<and>
   pageNumber (images (chapter_evaluate example_chapter_page) ! 1) = 2 \<and>
   imageUrl (images (chapter_evaluate example_chapter_page) ! 1) = None \<and>
   pageNumber (images (chapter_evaluate example_chapter_page) ! 2) = 3"
proof -
  let ?nodes = "querySelectorAll example_chapter_page (Class_sel (js ''page-image''))"
  have n: "length ?nodes = 3" "(1::nat) < length ?nodes" "(2::nat) < length ?nodes"
    by (simp_all add: example_page_images)
  have a: "getAttribute (?nodes ! 1) (js ''src'') = None"
    "getAttribute (?nodes ! 1) (js ''data-src'') = None"
    by (simp_all add: example_page_images)
  from images_keep_every_node [of example_chapter_page] n(2,3) a
  have "pageNumber (images (chapter_evaluate example_chapter_page) ! 1) = 1 + 1 \<and>
      imageUrl (images (chapter_evaluate example_chapter_page) ! 1) = None \<and>
      pageNumber (images (chapter_evaluate example_chapter_page) ! 2) = 2 + 1"
    by blast
  moreover from images_keep_every_node [of example_chapter_page] n(1)
  have "length (images (chapter_evaluate example_chapter_page)) = 3" by simp
  ultimately show ?thesis by simp
qed

section \<open>Fallback values\<close>

lemma or_else_nonempty: "d \<noteq> [] \<Longrightarrow> or_else a d \<noteq> []"
  by (simp add: or_else_def split: option.splits)

lemma or_else_absent: "or_else (trimmed_text None) d = d" "or_else (attribute_of None name) d = d"
  by (simp_all add: or_else_def trimmed_text_def attribute_of_def)

lemma or_opt_absent: "or_opt (attribute_of None name) None = None"
  by (simp add: or_opt_def attribute_of_def)

lemma fallback_literals:
  "js ''Unknown Title'' \<noteq> []" "js ''No description available'' \<noteq> []"
  "js ''Unknown Author'' \<noteq> []" "js ''No rating'' \<noteq> []" "js ''Unknown'' \<noteq> []"
  "js ''No title'' \<noteq> []" "js ''Unknown date'' \<noteq> []" "js ''#'' \<noteq> []"
  "js ''Unknown Chapter'' \<noteq> []"
  by (simp_all add: js_def)

lemma manga_id_of_hash: "manga_id_of_url (js ''#'') = []"
  by (simp add: manga_id_of_url_def title_re_def match_at_def js_def)

lemma search_fields_fallback:
  "SearchResult.title (search_card el) \<noteq> [] \<and>
   (el_querySelector el (Class_sel (js ''manga-title'')) = None \<longrightarrow>
      SearchResult.title (search_card el) = js ''Unknown Title'') \<and>
   (el_querySelector el (Tag_sel (js ''a'')) = None \<longrightarrow> manga_id (search_card el) = []) \<and>
   (el_querySelector el (Class_sel (js ''thumbnail'')) = None \<longrightarrow>
      SearchResult.image (search_card el) = None) \<and>
   (el_querySelector el (Class_sel (js ''latest-chapter'')) = None \<longrightarrow>
      latest_chapter (search_card el) = []) \<and>
   (el_querySelector el (Class_sel (js ''rating'')) = None \<longrightarrow>
      SearchResult.rating (search_card el) = [])"
  by (simp add: search_card_def Let_def or_else_nonempty fallback_literals or_else_absent
      or_opt_absent manga_id_of_hash)

lemma detail_chapter_fallback:
  "number (detail_chapter el) \<noteq> [] \<and> Chapter.title (detail_chapter el) \<noteq> [] \<and>
   uploadDate (detail_chapter el) \<noteq> [] \<and> url (detail_chapter el) \<noteq> [] \<and>
   (el_querySelector el (Class_sel (js ''chapter-number'')) = None \<longrightarrow>
      number (detail_chapter el) = js ''Unknown'') \<and>
   (el_querySelector el (Class_sel (js ''chapter-title'')) = None \<longrightarrow>
      Chapter.title (detail_chapter el) = js ''No title'') \<and>
   (el_querySelector el (Class_sel (js ''upload-date'')) = None \<longrightarrow>
      uploadDate (detail_chapter el) = js ''Unknown date'') \<and>
   (el_querySelector el (Tag_sel (js ''a'')) = None \<longrightarrow> url (detail_chapter el) = js ''#'')"
  by (simp add: detail_chapter_def or_else_nonempty fallback_literals or_else_absent)

lemma detail_fallback:
  "MangaDetail.title (detail_evaluate doc) \<noteq> [] \<and> description (detail_evaluate doc) \<noteq> [] \<and>
   author (detail_evaluate doc) \<noteq> [] \<and> MangaDetail.rating (detail_evaluate doc) \<noteq> [] \<and>
   (querySelector doc (Class_sel (js ''manga-title'')) = None \<longrightarrow>
      MangaDetail.title (detail_evaluate doc) = js ''Unknown Title'') \<and>
   (querySelector doc (Class_sel (js ''manga-description'')) = None \<longrightarrow>
      description (detail_evaluate doc) = js ''No description available'') \<and>
   (querySelector doc (Class_sel (js ''author-name'')) = None \<longrightarrow>
      author (detail_evaluate doc) = js ''Unknown Author'') \<and>
   (querySelector doc (Class_sel (js ''rating-value'')) = None \<longrightarrow>
      MangaDetail.rating (detail_evaluate doc) = js ''No rating'') \<and>
   (querySelector doc (Class_sel (js ''cover-image'')) = None \<longrightarrow>
      MangaDetail.image (detail_evaluate doc) = None) \<and>
   chapters (detail_evaluate doc) =
      map detail_chapter (querySelectorAll doc (Class_sel (js ''chapter-item'')))"
  by (simp add: detail_evaluate_def Let_def or_else_nonempty fallback_literals or_else_absent
      or_opt_absent)

lemma chapter_fallback:
  "ChapterData.title (chapter_evaluate doc) \<noteq> [] \<and>
   (querySelector doc (Class_sel (js ''chapter-title'')) = None \<longrightarrow>
      ChapterData.title (chapter_evaluate doc) = js ''Unknown Chapter'') \<and>
   (querySelector doc (Class_sel (js ''prev-chapter'')) = None \<longrightarrow>
      prev_chapter (chapter_evaluate doc) = None) \<and>
   (querySelector doc (Class_sel (js ''next-chapter'')) = None \<longrightarrow>
      next_chapter (chapter_evaluate doc) = None)"
  by (simp add: chapter_evaluate_def Let_def or_else_nonempty fallback_literals or_else_absent
      attribute_of_def chapter_id_of_link_def)


lemma example_empty_card_queries: "el_querySelector example_empty_card sel = None"
  by (simp add: example_empty_card_def el_querySelector_def el_querySelectorAll_def)

lemma example_detail_page_nodes:
  "concat (map (\<lambda>k. k # descendants k) example_detail_page) =
     [Element (js ''body'') [] []
        [Element (js ''div'') [js ''manga-container''] []
           [Element (js ''li'') [js ''chapter-item''] [] []]],
      Element (js ''div'') [js ''manga-container''] []
           [Element (js ''li'') [js ''chapter-item''] [] []],
      Element (js ''li'') [js ''chapter-item''] [] []]"
  by (simp add: example_detail_page_def)

lemma example_detail_page_queries:
  "querySelector example_detail_page (Class_sel (js ''manga-title'')) = None"
  "querySelector example_detail_page (Class_sel (js ''manga-description'')) = None"
  "querySelector example_detail_page (Class_sel (js ''author-name'')) = None"
  "querySelector example_detail_page (Class_sel (js ''rating-value'')) = None"
  "querySelector example_detail_page (Class_sel (js ''cover-image'')) = None"
  "querySelector example_detail_page (Class_sel (js ''chapter-title'')) = None"
  "querySelector example_detail_page (Class_sel (js ''prev-chapter'')) = None"
  "querySelector example_detail_page (Class_sel (js ''next-chapter'')) = None"
  "querySelectorAll example_detail_page (Class_sel (js ''chapter-item'')) =
     [Element (js ''li'') [js ''chapter-item''] [] []]"
  by (simp_all add: querySelector_def querySelectorAll_def example_detail_page_nodes)
    (simp_all add: js_def)

text \<open>
  Claim C4, as stated: every string field has a non-empty fallback for an absent
  source node. A card without children has no \<open>.latest-chapter\<close> and no \<open>.rating\<close>
  element, and the two fields of its search result are the empty string, as is its
  identifier.
\<close>

theorem empty_fallback_counterexample:
  "el_querySelector example_empty_card (Class_sel (js ''latest-chapter'')) = None \<and>
   latest_chapter (search_card example_empty_card) = [] \<and>
   el_querySelector example_empty_card (Class_sel (js ''rating'')) = None \<and>
   SearchResult.rating (search_card example_empty_card) = [] \<and>
   manga_id (search_card example_empty_card) = []"
  by (simp add: example_empty_card_def search_card_def Let_def el_querySelector_def
      el_querySelectorAll_def or_else_absent manga_id_of_hash)

text \<open>
  Claim C4, amended: a string field whose source node is absent holds its fallback.
  The fallback is a non-empty marker for the titles, the description, the author, the
  rating of the detail record and the four fields of a chapter item, and these
  fields are never empty; it is the empty string for \<open>manga_id\<close>, \<open>latest_chapter\<close>
  and \<open>rating\<close> of a search result. The image and the two navigation identifiers
  are \<open>null\<close> when their source node is absent. Every record is built with all of
  its fields, and \<open>null\<close> is a value of the fields \<open>image\<close>, \<open>imageUrl\<close>,
  \<open>prev_chapter\<close> and \<open>next_chapter\<close> only: that much is the type of the records.
\<close>

theorem fields_fallback:
  "(SearchResult.title (search_card el) \<noteq> [] \<and>
    (el_querySelector el (Class_sel (js ''manga-title'')) = None \<longrightarrow>
       SearchResult.title (search_card el) = js ''Unknown Title'') \<and>
    (el_querySelector el (Tag_sel (js ''a'')) = None \<longrightarrow> manga_id (search_card el) = []) \<and>
    (el_querySelector el (Class_sel (js ''thumbnail'')) = None \<longrightarrow>
       SearchResult.image (search_card el) = None) \<and>
    (el_querySelector el (Class_sel (js ''latest-chapter'')) = None \<longrightarrow>
       latest_chapter (search_card el) = []) \<and>
    (el_querySelector el (Class_sel (js ''rating'')) = None \<longrightarrow>
       SearchResult.rating (search_card el) = [])) \<and>
   (MangaDetail.title (detail_evaluate doc) \<noteq> [] \<and> description (detail_evaluate doc) \<noteq> [] \<and>
    author (detail_evaluate doc) \<noteq> [] \<and> MangaDetail.rating (detail_evaluate doc) \<noteq> [] \<and>
    (querySelector doc (Class_sel (js ''manga-title'')) = None \<longrightarrow>
       MangaDetail.title (detail_evaluate doc) = js ''Unknown Title'') \<and>
    (querySelector doc (Class_sel (js ''manga-description'')) = None \<longrightarrow>
       description (detail_evaluate doc) = js ''No description available'') \<and>
    (querySelector doc (Class_sel (js ''author-name'')) = None \<longrightarrow>
       author (detail_evaluate doc) = js ''Unknown Author'') \<and>
    (querySelector doc (Class_sel (js ''rating-value'')) = None \<longrightarrow>
       MangaDetail.rating (detail_evaluate doc) = js ''No rating'') \<and>
    (querySelector doc (Class_sel (js ''cover-image'')) = None \<longrightarrow>
       MangaDetail.image (detail_evaluate doc) = None) \<and>
    chapters (detail_evaluate doc) =
       map detail_chapter (querySelectorAll doc (Class_sel (js ''chapter-item'')))) \<and>
   (number (detail_chapter el) \<noteq> [] \<and> Chapter.title (detail_chapter el) \<noteq> [] \<and>
    uploadDate (detail_chapter el) \<noteq> [] \<and> url (detail_chapter el) \<noteq> [] \<and>
    (el_querySelector el (Class_sel (js ''chapter-number'')) = None \<longrightarrow>
       number (detail_chapter el) = js ''Unknown'') \<and>
    (el_querySelector el (Class_sel (js ''chapter-title'')) = None \<longrightarrow>
       Chapter.title (detail_chapter el) = js ''No title'') \<and>
    (el_querySelector el (Class_sel (js ''upload-date'')) = None \<longrightarrow>
       uploadDate (detail_chapter el) = js ''Unknown date'') \<and>
    (el_querySelector el (Tag_sel (js ''a'')) = None \<longrightarrow> url (detail_chapter el) = js ''#'')) \<and>
   (ChapterData.title (chapter_evaluate doc) \<noteq> [] \<and>
    (querySelector doc (Class_sel (js ''chapter-title'')) = None \<longrightarrow>
       ChapterData.title (chapter_evaluate doc) = js ''Unknown Chapter'') \<and>
    (querySelector doc (Class_sel (js ''prev-chapter'')) = None \<longrightarrow>
       prev_chapter (chapter_evaluate doc) = None) \<and>
    (querySelector doc (Class_sel (js ''next-chapter'')) = None \<longrightarrow>
       next_chapter (chapter_evaluate doc) = None))"
  using search_fields_fallback [of el] detail_fallback [of doc] detail_chapter_fallback [of el]
    chapter_fallback [of doc]
  by blast

theorem fields_fallback_witness:
  "search_card example_empty_card =
     \<lparr> SearchResult.title = js ''Unknown Title'', manga_id = [], image = None,
       latest_chapter = [], rating = [] \<rparr> \<and>
   MangaDetail.title (detail_evaluate example_detail_page) = js ''Unknown Title'' \<and>
   description (detail_evaluate example_detail_page) = js ''No description available'' \<and>
   author (detail_evaluate example_detail_page) = js ''Unknown Author'' \<and>
   MangaDetail.rating (detail_evaluate example_detail_page) = js ''No rating'' \<and>
   MangaDetail.image (detail_evaluate example_detail_page) = None \<and>
   chapters (detail_evaluate example_detail_page) =
     [detail_chapter (Element (js ''li'') [js ''chapter-item''] [] [])] \<and>
   detail_chapter example_empty_card =
     \<lparr> number = js ''Unknown'', Chapter.title = js ''No title'', uploadDate = js ''Unknown date'',
       url = js ''#'' \<rparr> \<and>
   ChapterData.title (chapter_evaluate example_detail_page) = js ''Unknown Chapter'' \<and>
   prev_chapter (chapter_evaluate example_detail_page) = None \<and>
   next_chapter (chapter_evaluate example_detail_page) = None"
  using fields_fallback [of example_empty_card example_detail_page]
  by (simp add: example_empty_card_queries example_detail_page_queries)

section \<open>The browser session\<close>

lemma obliviousD: "oblivious m \<Longrightarrow> m t = (fst (m []), t @ snd (m []))"
  unfolding oblivious_def by blast

lemma quiet_return: "quiet (return_io v)"
  by (simp add: quiet_def oblivious_def return_io_def)

lemma quiet_throw: "quiet (throw_io e)"
  by (simp add: quiet_def oblivious_def throw_io_def)

lemma quiet_lift: "quiet (lift_io r)"
  by (simp add: quiet_def oblivious_def lift_io_def)

lemma quiet_call: "ev \<noteq> Close \<Longrightarrow> quiet (call ev outcome)"
  by (simp add: quiet_def oblivious_def call_def)

lemma quiet_console_error: "quiet (console_error label e)"
  by (simp add: quiet_def oblivious_def console_error_def)

lemma quiet_goto: "quiet (goto w target)"
  by (simp add: quiet_def oblivious_def goto_def)

lemma bind_io_run:
  assumes "oblivious m" "\<And>v. oblivious (f v)"
  shows "bind_io m f t =
     (case fst (m []) of Inl e \<Rightarrow> (Inl e, t @ snd (m []))
      | Inr v \<Rightarrow> (fst (f v []), t @ snd (m []) @ snd (f v [])))"
proof (cases "fst (m [])")
  case (Inl e)
  then show ?thesis using obliviousD [OF assms(1), of t] by (simp add: bind_io_def)
next
  case (Inr v)
  then show ?thesis
    using obliviousD [OF assms(1), of t] obliviousD [OF assms(2), of v "t @ snd (m [])"]
    by (simp add: bind_io_def)
qed

lemma oblivious_bind:
  assumes "oblivious m" "\<And>v. oblivious (f v)"
  shows "oblivious (bind_io m f)"
  unfolding oblivious_def
  by (simp add: bind_io_run [OF assms] split: sum.splits)

lemma quiet_bind:
  assumes "quiet m" "\<And>v. quiet (f v)"
  shows "quiet (bind_io m f)"
proof -
  have o: "oblivious m" "\<And>v. oblivious (f v)" using assms by (simp_all add: quiet_def)
  have "Close \<notin> set (snd (bind_io m f []))"
    using assms by (auto simp: bind_io_run [OF o] quiet_def split: sum.splits)
  with oblivious_bind [OF o] show ?thesis by (simp add: quiet_def)
qed

lemma try_catch_finally_run:
  assumes "oblivious blk" "\<And>e. oblivious (handler e)"
  shows "try_catch_finally blk handler (call Close outcome) t =
     (case outcome of Some e' \<Rightarrow> Inl e'
      | None \<Rightarrow> (case fst (blk []) of Inl e \<Rightarrow> fst (handler e []) | Inr v \<Rightarrow> Inr v),
      t @ snd (blk []) @ (case fst (blk []) of Inl e \<Rightarrow> snd (handler e []) | Inr v \<Rightarrow> [])
        @ [Close])"
proof (cases "fst (blk [])")
  case (Inl e)
  then show ?thesis
    using obliviousD [OF assms(1), of t] obliviousD [OF assms(2), of e "t @ snd (blk [])"]
    by (simp add: try_catch_finally_def call_def split: option.splits)
next
  case (Inr v)
  then show ?thesis
    using obliviousD [OF assms(1), of t]
    by (simp add: try_catch_finally_def call_def split: option.splits)
qed

lemma quiet_open_page: "quiet (open_page w)"
  unfolding open_page_def by (intro quiet_bind quiet_call) simp_all

lemma quiet_waitForSelector: "quiet (waitForSelector doc sel)"
  unfolding waitForSelector_def by (rule quiet_call) simp

lemma quiet_evaluate: "quiet (evaluate w v)"
  unfolding evaluate_def by (intro quiet_bind quiet_call quiet_return) simp

lemma quiet_rethrow: "quiet (rethrow label intro e)"
  unfolding rethrow_def by (intro quiet_bind quiet_console_error quiet_throw)

lemma quiet_scrape_try: "quiet (scrape_try w mangaUrl)"
  unfolding scrape_try_def
  by (intro quiet_bind quiet_open_page quiet_goto quiet_waitForSelector quiet_evaluate)

lemma quiet_search_try: "quiet (search_try w searchTerm)"
  unfolding search_try_def
  by (intro quiet_bind quiet_open_page quiet_lift quiet_goto quiet_waitForSelector quiet_evaluate)

lemma quiet_chapter_try: "quiet (chapter_try w chapterUrl)"
  unfolding chapter_try_def
  by (intro quiet_bind quiet_open_page quiet_goto quiet_waitForSelector quiet_evaluate)

text \<open>The shape shared by the three pipelines.\<close>

lemma pipeline_launched:
  assumes "launched w" "quiet blk" "\<And>e. quiet (handler e)"
  shows "bind_io (launchBrowser w)
       (\<lambda>browser. try_catch_finally blk handler (call Close (close_result w))) t =
     (case close_result w of Some e' \<Rightarrow> Inl e'
      | None \<Rightarrow> (case fst (blk []) of Inl e \<Rightarrow> fst (handler e []) | Inr v \<Rightarrow> Inr v),
      t @ (Launch # snd (blk []) @
           (case fst (blk []) of Inl e \<Rightarrow> snd (handler e []) | Inr v \<Rightarrow> [])) @ [Close])"
proof -
  have o: "oblivious blk" "\<And>e. oblivious (handler e)"
    using assms(2,3) by (simp_all add: quiet_def)
  have "launchBrowser w t = (Inr (), t @ [Launch])"
    using assms(1) by (simp add: launchBrowser_def launched_def call_def)
  then show ?thesis
    by (simp add: bind_io_def try_catch_finally_run [OF o])
qed

lemma pipeline_not_launched:
  assumes "\<not> launched w"
  shows "bind_io (launchBrowser w)
       (\<lambda>browser. try_catch_finally blk handler (call Close (close_result w))) t =
     (if production w then (Inl (JsError ''ReferenceError'' (js ''chrome is not defined'')), t)
      else (Inl (the (launch_result w)), t @ [Launch]))"
  using assms
  by (auto simp: bind_io_def launchBrowser_def launched_def call_def throw_io_def)

lemma pipeline_closes_once:
  assumes "quiet blk" "\<And>e. quiet (handler e)"
  shows "(launched w \<longrightarrow>
      (\<exists>mid. snd (bind_io (launchBrowser w)
           (\<lambda>browser. try_catch_finally blk handler (call Close (close_result w))) t) =
         t @ mid @ [Close] \<and> Close \<notin> set mid)) \<and>
    (\<not> launched w \<longrightarrow>
      isl (fst (bind_io (launchBrowser w)
           (\<lambda>browser. try_catch_finally blk handler (call Close (close_result w))) t)) \<and>
      (\<exists>mid. snd (bind_io (launchBrowser w)
           (\<lambda>browser. try_catch_finally blk handler (call Close (close_result w))) t) =
         t @ mid \<and> Close \<notin> set mid))"
proof (cases "launched w")
  case True
  have "Close \<notin> set (Launch # snd (blk []) @
      (case fst (blk []) of Inl e \<Rightarrow> snd (handler e []) | Inr v \<Rightarrow> []))"
    using assms by (auto simp: quiet_def split: sum.splits)
  with True show ?thesis
    unfolding pipeline_launched [OF True assms] by (metis snd_conv)
next
  case False
  then show ?thesis
    unfolding pipeline_not_launched [OF False] by auto
qed

lemma launched_example_world: "launched (example_world doc)"
  by (simp add: launched_def example_world_def)

lemma not_launched_production: "\<not> launched (example_world doc \<lparr> production := True \<rparr>)"
  by (simp add: launched_def)

text \<open>
  Claim C7: when \<open>launchBrowser\<close> has returned a session, each of the three
  pipelines extends the trace by events that are not \<open>Close\<close> and then by exactly
  one \<open>Close\<close>, which is the last event before the pipeline returns or its error
  propagates; this holds for every outcome of every call in between (a failed
  navigation, a selector timeout, a failed extraction), and also when
  \<open>browser.close()\<close> itself rejects. When \<open>launchBrowser\<close> throws there is no
  session: the pipeline throws and nothing is closed.
\<close>

theorem browser_closed_exactly_once:
  "(launched w \<longrightarrow>
      (\<exists>mid. snd (scrapeMangaDetails w mangaUrl t) = t @ mid @ [Close] \<and> Close \<notin> set mid) \<and>
      (\<exists>mid. snd (searchManga w searchTerm t) = t @ mid @ [Close] \<and> Close \<notin> set mid) \<and>
      (\<exists>mid. snd (getChapterData w chapterUrl t) = t @ mid @ [Close] \<and> Close \<notin> set mid)) \<and>
   (\<not> launched w \<longrightarrow>
      isl (fst (scrapeMangaDetails w mangaUrl t)) \<and>
      isl (fst (searchManga w searchTerm t)) \<and>
      isl (fst (getChapterData w chapterUrl t)) \<and>
      (\<exists>mid. snd (scrapeMangaDetails w mangaUrl t) = t @ mid \<and> Close \<notin> set mid) \<and>
      (\<exists>mid. snd (searchManga w searchTerm t) = t @ mid \<and> Close \<notin> set mid) \<and>
      (\<exists>mid. snd (getChapterData w chapterUrl t) = t @ mid \<and> Close \<notin> set mid))"
  unfolding scrapeMangaDetails_def searchManga_def getChapterData_def
  using pipeline_closes_once [OF quiet_scrape_try quiet_rethrow, where w = w and t = t]
    pipeline_closes_once [OF quiet_search_try quiet_rethrow, where w = w and t = t]
    pipeline_closes_once [OF quiet_chapter_try quiet_rethrow, where w = w and t = t]
  by simp


theorem browser_closed_exactly_once_witness:
  "(\<exists>mid. snd (scrapeMangaDetails (example_world example_detail_page) (js ''u'') []) =
       [] @ mid @ [Close] \<and> Close \<notin> set mid) \<and>
   (\<exists>mid. snd (searchManga (example_world example_detail_page) (js ''q'') []) =
       [] @ mid @ [Close] \<and> Close \<notin> set mid) \<and>
   (\<exists>mid. snd (getChapterData (example_world example_detail_page) (js ''u'') []) =
       [] @ mid @ [Close] \<and> Close \<notin> set mid) \<and>
   isl (fst (searchManga (example_world example_detail_page \<lparr> production := True \<rparr>) (js ''q'') [])) \<and>
   (\<exists>mid. snd (searchManga (example_world example_detail_page \<lparr> production := True \<rparr>) (js ''q'') []) =
       [] @ mid \<and> Close \<notin> set mid)"
  using browser_closed_exactly_once [of "example_world example_detail_page" "js ''u''" "[]"
      "js ''q''" "js ''u''"]
    browser_closed_exactly_once [of "example_world example_detail_page \<lparr> production := True \<rparr>"
      "js ''u''" "[]" "js ''q''" "js ''u''"]
    launched_example_world [of example_detail_page]
    not_launched_production [of example_detail_page]
  by blast

section \<open>Route responses\<close>

lemma oblivious_pipeline:
  assumes "quiet blk" "\<And>e. quiet (handler e)"
  shows "oblivious (bind_io (launchBrowser w)
       (\<lambda>browser. try_catch_finally blk handler (call Close (close_result w))))"
proof (cases "launched w")
  case True
  show ?thesis
    unfolding oblivious_def pipeline_launched [OF True assms] by simp
next
  case False
  show ?thesis
    unfolding oblivious_def pipeline_not_launched [OF False] by simp
qed

lemma oblivious_pipelines:
  "oblivious (scrapeMangaDetails w mangaUrl)" "oblivious (searchManga w searchTerm)"
  "oblivious (getChapterData w chapterUrl)"
  unfolding scrapeMangaDetails_def searchManga_def getChapterData_def
  by (intro oblivious_pipeline quiet_scrape_try quiet_search_try quiet_chapter_try quiet_rethrow)+

lemma pipeline_result:
  "fst (scrapeMangaDetails w mangaUrl t) = fst (scrapeMangaDetails w mangaUrl [])"
  "fst (searchManga w searchTerm t) = fst (searchManga w searchTerm [])"
  "fst (getChapterData w chapterUrl t) = fst (getChapterData w chapterUrl [])"
  using obliviousD [OF oblivious_pipelines(1), of w mangaUrl t]
    obliviousD [OF oblivious_pipelines(2), of w searchTerm t]
    obliviousD [OF oblivious_pipelines(3), of w chapterUrl t]
  by simp_all

text \<open>The response of a route in terms of the completion of its pipeline.\<close>

lemma search_route_response:
  "fst (search_route w query t) =
     (case fst (searchManga w query []) of
        Inl error \<Rightarrow>
          \<lparr> status = 500,
            body = JObject [(''error'', JString (js ''An error occurred during the search.''))] \<rparr>
      | Inr results \<Rightarrow>
          \<lparr> status = 200,
            body = JObject [(''results'', JArray (map json_of_SearchResult results))] \<rparr>)"
proof -
  obtain r t' where run: "searchManga w query (t @ [Delay 1500]) = (r, t')"
    by fastforce
  then have "fst (searchManga w query []) = r"
    using pipeline_result(2) [of w query "t @ [Delay 1500]"] by simp
  with run show ?thesis
    by (cases r) (simp_all add: search_route_def bind_io_def delay_def call_def)
qed

lemma detail_route_response:
  "fst (detail_route w mangaId t) =
     (case fst (scrapeMangaDetails w (js ''https://mangadex.org/title/'' @ mangaId) []) of
        Inl error \<Rightarrow>
          \<lparr> status = 500,
            body = JObject [(''error'',
                     JString (js ''An error occurred while fetching manga details.''))] \<rparr>
      | Inr mangaDetails \<Rightarrow> \<lparr> status = 200, body = json_of_MangaDetail mangaDetails \<rparr>)"
proof -
  obtain r t' where run:
    "scrapeMangaDetails w (js ''https://mangadex.org/title/'' @ mangaId) (t @ [Delay 1000]) = (r, t')"
    by fastforce
  then have "fst (scrapeMangaDetails w (js ''https://mangadex.org/title/'' @ mangaId) []) = r"
    using pipeline_result(1) [of w "js ''https://mangadex.org/title/'' @ mangaId" "t @ [Delay 1000]"]
    by simp
  with run show ?thesis
    by (cases r) (simp_all add: detail_route_def bind_io_def delay_def call_def)
qed

lemma read_route_response:
  "fst (read_route w chapterId t) =
     (case (case decodeURIComponent w chapterId of Inl e \<Rightarrow> Inl e
            | Inr decodedChapterId \<Rightarrow>
                fst (getChapterData w (js ''https://mangadex.org/chapter/'' @ decodedChapterId) [])) of
        Inl error \<Rightarrow>
          \<lparr> status = 500,
            body = JObject [(''error'', JString (js ''An error occurred while fetching the chapter.'')),
                            (''images'', JArray []),
                            (''prev_chapter'', JNull),
                            (''next_chapter'', JNull)] \<rparr>
      | Inr chapterData \<Rightarrow> \<lparr> status = 200, body = json_of_ChapterData chapterData \<rparr>)"
proof (cases "decodeURIComponent w chapterId")
  case (Inl e)
  then show ?thesis
    by (simp add: read_route_def bind_io_def delay_def call_def lift_io_def)
next
  case (Inr d)
  obtain r t' where run:
    "getChapterData w (js ''https://mangadex.org/chapter/'' @ d) (t @ [Delay 1000]) = (r, t')"
    by fastforce
  then have "fst (getChapterData w (js ''https://mangadex.org/chapter/'' @ d) []) = r"
    using pipeline_result(3) [of w "js ''https://mangadex.org/chapter/'' @ d" "t @ [Delay 1000]"]
    by simp
  with run Inr show ?thesis
    by (cases r) (simp_all add: read_route_def bind_io_def delay_def call_def lift_io_def)
qed

lemmas io_eval = bind_io_def return_io_def throw_io_def lift_io_def call_def console_error_def
  delay_def try_catch_finally_def launchBrowser_def goto_def waitForSelector_def evaluate_def
  open_page_def rethrow_def

lemma example_empty_page_queries: "querySelectorAll example_empty_page (Class_sel c) = []"
  by (simp add: example_empty_page_def querySelectorAll_def)

lemma example_empty_page_fails:
  "isl (fst (getChapterData (example_world example_empty_page) u t))"
  "isl (fst (searchManga (example_world example_empty_page) q t))"
  "isl (fst (scrapeMangaDetails (example_world example_empty_page) u t))"
  by (simp_all add: getChapterData_def chapter_try_def searchManga_def search_try_def
      scrapeMangaDetails_def scrape_try_def io_eval example_world_def example_empty_page_queries)

text \<open>
  Claim C1: whenever the chapter pipeline throws, and also when the percent-decoding
  of the parameter throws inside the same \<open>try\<close> block, the read route replies with
  status 500 and the body \<open>{error, images: [], prev_chapter: null, next_chapter:
  null}\<close> with its fixed message; whenever their pipeline throws, the search and the
  detail route reply with status 500 and a body that has the field \<open>error\<close> only.
  The pipelines are oblivious, so \<open>t'\<close> may be any trace.
\<close>

theorem error_responses:
  "(isl (fst (getChapterData w (js ''https://mangadex.org/chapter/'' @ decodedChapterId) t')) \<and>
      decodeURIComponent w chapterId = Inr decodedChapterId \<longrightarrow>
      fst (read_route w chapterId t) =
        \<lparr> status = 500,
          body = JObject [(''error'', JString (js ''An error occurred while fetching the chapter.'')),
                          (''images'', JArray []),
                          (''prev_chapter'', JNull),
                          (''next_chapter'', JNull)] \<rparr>) \<and>
   (isl (decodeURIComponent w chapterId) \<longrightarrow>
      fst (read_route w chapterId t) =
        \<lparr> status = 500,
          body = JObject [(''error'', JString (js ''An error occurred while fetching the chapter.'')),
                          (''images'', JArray []),
                          (''prev_chapter'', JNull),
                          (''next_chapter'', JNull)] \<rparr>) \<and>
   (isl (fst (searchManga w query t')) \<longrightarrow>
      fst (search_route w query t) =
        \<lparr> status = 500,
          body = JObject [(''error'', JString (js ''An error occurred during the search.''))] \<rparr>) \<and>
   (isl (fst (scrapeMangaDetails w (js ''https://mangadex.org/title/'' @ mangaId) t')) \<longrightarrow>
      fst (detail_route w mangaId t) =
        \<lparr> status = 500,
          body = JObject [(''error'',
                   JString (js ''An error occurred while fetching manga details.''))] \<rparr>)"
proof -
  have 1: "fst (getChapterData w (js ''https://mangadex.org/chapter/'' @ decodedChapterId) t') =
      fst (getChapterData w (js ''https://mangadex.org/chapter/'' @ decodedChapterId) [])"
    by (rule pipeline_result)
  have 2: "fst (searchManga w query t') = fst (searchManga w query [])"
    by (rule pipeline_result)
  have 3: "fst (scrapeMangaDetails w (js ''https://mangadex.org/title/'' @ mangaId) t') =
      fst (scrapeMangaDetails w (js ''https://mangadex.org/title/'' @ mangaId) [])"
    by (rule pipeline_result)
  show ?thesis
    unfolding 1 2 3 search_route_response detail_route_response read_route_response
    by (auto simp: isl_def)
qed


theorem error_responses_witness:
  "fst (read_route (example_world example_empty_page) (js ''abc123'') []) =
     \<lparr> status = 500,
       body = JObject [(''error'', JString (js ''An error occurred while fetching the chapter.'')),
                       (''images'', JArray []),
                       (''prev_chapter'', JNull),
                       (''next_chapter'', JNull)] \<rparr> \<and>
   fst (read_route (example_world example_chapter_page
          \<lparr> decodeURIComponent := (\<lambda>s. Inl (JsError ''URIError'' (js ''URI malformed''))) \<rparr>)
        (js ''%'') []) =
     \<lparr> status = 500,
       body = JObject [(''error'', JString (js ''An error occurred while fetching the chapter.'')),
                       (''images'', JArray []),
                       (''prev_chapter'', JNull),
                       (''next_chapter'', JNull)] \<rparr> \<and>
   fst (search_route (example_world example_empty_page) (js ''naruto'') []) =
     \<lparr> status = 500,
       body = JObject [(''error'', JString (js ''An error occurred during the search.''))] \<rparr> \<and>
   fst (detail_route (example_world example_empty_page) (js ''m1'') []) =
     \<lparr> status = 500,
       body = JObject [(''error'',
                JString (js ''An error occurred while fetching manga details.''))] \<rparr>"
proof -
  have d: "decodeURIComponent (example_world example_empty_page) (js ''abc123'') = Inr (js ''abc123'')"
    by (simp add: example_world_def)
  have u: "isl (decodeURIComponent (example_world example_chapter_page
          \<lparr> decodeURIComponent := (\<lambda>s. Inl (JsError ''URIError'' (js ''URI malformed''))) \<rparr>)
        (js ''%''))"
    by simp
  show ?thesis
    using error_responses [of "example_world example_empty_page" "js ''abc123''" "[]"
        "js ''abc123''" "[]" "js ''naruto''" "js ''m1''"]
      error_responses [of "example_world example_chapter_page
          \<lparr> decodeURIComponent := (\<lambda>s. Inl (JsError ''URIError'' (js ''URI malformed''))) \<rparr>"
        "js ''abc123''" "[]" "js ''%''" "[]" "js ''naruto''" "js ''m1''"]
      d u example_empty_page_fails
    by blast
qed

section \<open>The search route\<close>

lemma search_try_success:
  assumes "fst (search_try w searchTerm t) = Inr results"
  shows "\<exists>q doc. encodeURIComponent w searchTerm = Inr q \<and>
      goto_result w (js ''https://mangadex.org/search?q='' @ q) = Inr doc \<and>
      querySelectorAll doc (Class_sel (js ''manga-card'')) \<noteq> [] \<and>
      results = search_evaluate doc"
  using assms
  by (auto simp: search_try_def io_eval split: option.splits sum.splits if_splits)

lemma fst_rethrow: "fst (rethrow label intro e t) = Inl (JsError ''Error'' (intro @ message e))"
  by (simp add: rethrow_def bind_io_def console_error_def throw_io_def)

lemma searchManga_success:
  assumes "fst (searchManga w searchTerm t) = Inr results"
  shows "\<exists>q doc. encodeURIComponent w searchTerm = Inr q \<and>
      goto_result w (js ''https://mangadex.org/search?q='' @ q) = Inr doc \<and>
      querySelectorAll doc (Class_sel (js ''manga-card'')) \<noteq> [] \<and>
      results = search_evaluate doc"
proof (cases "launched w")
  case True
  have "fst (search_try w searchTerm []) = Inr results"
    using assms
    unfolding searchManga_def pipeline_launched [OF True quiet_search_try quiet_rethrow]
    by (auto simp: fst_rethrow split: option.splits sum.splits)
  then show ?thesis by (rule search_try_success)
next
  case False
  then show ?thesis
    using assms unfolding searchManga_def pipeline_not_launched [OF False]
    by (simp split: if_splits)
qed

lemma search_route_ok:
  assumes "reaches_navigation w" "encodeURIComponent w query = Inr q"
    "goto_result w (js ''https://mangadex.org/search?q='' @ q) = Inr doc"
    "querySelectorAll doc (Class_sel (js ''manga-card'')) \<noteq> []"
    "evaluate_result w = None" "close_result w = None"
  shows "fst (search_route w query t) =
     \<lparr> status = 200,
       body = JObject [(''results'', JArray (map json_of_SearchResult (search_evaluate doc)))] \<rparr>"
proof -
  have l: "launched w" using assms(1) by (simp add: reaches_navigation_def)
  have "fst (search_try w query []) = Inr (search_evaluate doc)"
    using assms by (simp add: search_try_def io_eval reaches_navigation_def)
  then have "fst (searchManga w query []) = Inr (search_evaluate doc)"
    unfolding searchManga_def pipeline_launched [OF l quiet_search_try quiet_rethrow]
    using assms(6) by simp
  then show ?thesis by (simp add: search_route_response)
qed

lemma example_world_fields:
  "reaches_navigation (example_world doc)"
  "encodeURIComponent (example_world doc) s = Inr s"
  "decodeURIComponent (example_world doc) s = Inr s"
  "goto_result (example_world doc) target = Inr doc"
  "evaluate_result (example_world doc) = None"
  "close_result (example_world doc) = None"
  by (simp_all add: example_world_def reaches_navigation_def launched_def)

lemma example_search_page_cards:
  "querySelectorAll example_search_page (Class_sel (js ''manga-card'')) =
     [Element (js ''div'') [js ''manga-card''] []
        [Element (js ''a'') [] [(js ''href'', js ''/title/m1/'')]
           [Element (js ''span'') [js ''manga-title''] [] [Text_node (js '' Naruto '')]]],
      example_empty_card]"
  by (simp add: example_search_page_def example_empty_card_def querySelectorAll_def js_def)

text \<open>
  Claim C6, as stated: a search against a page with zero \<open>.manga-card\<close> elements is
  answered with status 200 and \<open>{results: []}\<close>. The pipeline waits for the selector
  \<open>.manga-card\<close> before it extracts, the wait fails on such a page, and the route
  answers with status 500.
\<close>

theorem empty_search_page_counterexample:
  "querySelectorAll example_empty_page (Class_sel (js ''manga-card'')) = [] \<and>
   fst (search_route (example_world example_empty_page) (js ''naruto'') []) =
     \<lparr> status = 500,
       body = JObject [(''error'', JString (js ''An error occurred during the search.''))] \<rparr>"
  using example_empty_page_fails(2) [of "js ''naruto''" "[]"]
  by (auto simp: search_route_response example_empty_page_queries isl_def)

text \<open>
  Claim C6, amended: a search against a page with zero \<open>.manga-card\<close> elements is
  answered with status 500 and the body \<open>{error}\<close> of the search route, whatever
  the outcome of the other calls.
\<close>

theorem empty_search_page_is_an_error:
  "encodeURIComponent w query = Inr q \<and>
     goto_result w (js ''https://mangadex.org/search?q='' @ q) = Inr doc \<and>
     querySelectorAll doc (Class_sel (js ''manga-card'')) = [] \<longrightarrow>
   fst (search_route w query t) =
     \<lparr> status = 500,
       body = JObject [(''error'', JString (js ''An error occurred during the search.''))] \<rparr>"
proof (intro impI, elim conjE)
  assume that: "encodeURIComponent w query = Inr q"
    "goto_result w (js ''https://mangadex.org/search?q='' @ q) = Inr doc"
    "querySelectorAll doc (Class_sel (js ''manga-card'')) = []"
  show "fst (search_route w query t) =
     \<lparr> status = 500,
       body = JObject [(''error'', JString (js ''An error occurred during the search.''))] \<rparr>"
  proof (cases "fst (searchManga w query [])")
    case (Inl e)
    then show ?thesis by (simp add: search_route_response)
  next
    case (Inr results)
    from searchManga_success [OF this] that show ?thesis by auto
  qed
qed

theorem empty_search_page_is_an_error_witness:
  "fst (search_route (example_world example_empty_page) (js ''naruto'') []) =
     \<lparr> status = 500,
       body = JObject [(''error'', JString (js ''An error occurred during the search.''))] \<rparr>"
  using empty_search_page_is_an_error [of "example_world example_empty_page" "js ''naruto''"
      "js ''naruto''" example_empty_page "[]"]
  by (simp add: example_world_fields example_empty_page_queries)

text \<open>
  Claim C8: the response of the search route does not depend on the trace it starts
  from, so a second run of the route after the first one, in the same world and with
  the same query, gives the same response; and a response with status 200 carries
  the records of the \<open>.manga-card\<close> elements of the rendered document, one for each
  element, in document order. The body is a JSON value with ordered fields, and its
  serialisation is a function of that value.
\<close>

theorem search_is_deterministic:
  "fst (search_route w query (snd (search_route w query t))) = fst (search_route w query t) \<and>
   fst (search_route w query t1) = fst (search_route w query t2) \<and>
   (encodeURIComponent w query = Inr q \<and>
      goto_result w (js ''https://mangadex.org/search?q='' @ q) = Inr doc \<and>
      status (fst (search_route w query t)) = 200 \<longrightarrow>
      body (fst (search_route w query t)) =
        JObject [(''results'',
          JArray (map (\<lambda>el. json_of_SearchResult (search_card el))
                    (querySelectorAll doc (Class_sel (js ''manga-card'')))))])"
proof -
  have "body (fst (search_route w query t)) =
        JObject [(''results'',
          JArray (map (\<lambda>el. json_of_SearchResult (search_card el))
                    (querySelectorAll doc (Class_sel (js ''manga-card'')))))]"
    if "encodeURIComponent w query = Inr q"
      "goto_result w (js ''https://mangadex.org/search?q='' @ q) = Inr doc"
      "status (fst (search_route w query t)) = 200"
  proof (cases "fst (searchManga w query [])")
    case (Inl e)
    with that(3) show ?thesis by (simp add: search_route_response)
  next
    case (Inr results)
    from searchManga_success [OF this] that(1,2) have "results = search_evaluate doc"
      by auto
    with Inr show ?thesis by (simp add: search_route_response search_evaluate_def)
  qed
  then show ?thesis by (simp add: search_route_response)
qed

theorem search_is_deterministic_witness:
  "body (fst (search_route (example_world example_search_page) (js ''naruto'') [])) =
     JObject [(''results'',
       JArray [JObject [(''title'', JString (js ''Naruto'')), (''manga_id'', JString (js ''m1'')),
                        (''image'', JNull), (''latest_chapter'', JString []),
                        (''rating'', JString [])],
               JObject [(''title'', JString (js ''Unknown Title'')), (''manga_id'', JString []),
                        (''image'', JNull), (''latest_chapter'', JString []),
                        (''rating'', JString [])]])]"
proof -
  have s: "status (fst (search_route (example_world example_search_page) (js ''naruto'') [])) = 200"
    using search_route_ok [of "example_world example_search_page" "js ''naruto''" "js ''naruto''"
        example_search_page "[]"]
    by (simp add: example_world_fields example_search_page_cards)
  have c1: "json_of_SearchResult (search_card (Element (js ''div'') [js ''manga-card''] []
        [Element (js ''a'') [] [(js ''href'', js ''/title/m1/'')]
           [Element (js ''span'') [js ''manga-title''] [] [Text_node (js '' Naruto '')]]])) =
      JObject [(''title'', JString (js ''Naruto'')), (''manga_id'', JString (js ''m1'')),
                        (''image'', JNull), (''latest_chapter'', JString []),
                        (''rating'', JString [])]"
    by (simp add: json_of_SearchResult_def search_card_def Let_def el_querySelector_def
        el_querySelectorAll_def trimmed_text_def attribute_of_def or_else_def or_opt_def
        trim_def is_white_space_def is_line_terminator_def manga_id_of_url_def title_re_def
        match_at_def json_of_nullable_def js_def)
  have c2: "json_of_SearchResult (search_card example_empty_card) =
      JObject [(''title'', JString (js ''Unknown Title'')), (''manga_id'', JString []),
                        (''image'', JNull), (''latest_chapter'', JString []),
                        (''rating'', JString [])]"
    using search_fields_fallback [of example_empty_card]
    by (simp add: json_of_SearchResult_def json_of_nullable_def example_empty_card_queries)
  from search_is_deterministic [of "example_world example_search_page" "js ''naruto''" "[]"
      "[]" "[]" "js ''naruto''" example_search_page] s
  show ?thesis
    by (simp add: example_world_fields example_search_page_cards c1 c2)
qed


section \<open>Upstream addresses\<close>

lemma goto_urls_append: "goto_urls (a @ b) = goto_urls a @ goto_urls b"
  by (induction a rule: goto_urls.induct) simp_all

lemma snd_rethrow: "snd (rethrow label intro e t) = t @ [ConsoleError label e]"
  by (simp add: rethrow_def bind_io_def console_error_def throw_io_def)

lemma goto_urls_chapter_try:
  "goto_urls (snd (chapter_try w chapterUrl [])) =
     (if newPage_result w = None \<and> setViewport_result w = None \<and> setUserAgent_result w = None
      then [chapterUrl] else [])"
  by (simp add: chapter_try_def io_eval split: option.splits sum.splits)

lemma goto_urls_scrape_try:
  "goto_urls (snd (scrape_try w mangaUrl [])) =
     (if newPage_result w = None \<and> setViewport_result w = None \<and> setUserAgent_result w = None
      then [mangaUrl] else [])"
  by (simp add: scrape_try_def io_eval split: option.splits sum.splits)

lemma goto_urls_pipeline:
  assumes "quiet blk"
  shows "goto_urls (snd (bind_io (launchBrowser w)
       (\<lambda>browser. try_catch_finally blk (rethrow label intro) (call Close (close_result w))) t)) =
     goto_urls t @ (if launched w then goto_urls (snd (blk [])) else [])"
proof (cases "launched w")
  case True
  show ?thesis
    unfolding pipeline_launched [OF True assms quiet_rethrow]
    using True by (simp add: goto_urls_append snd_rethrow split: sum.splits)
next
  case False
  show ?thesis
    unfolding pipeline_not_launched [OF False]
    using False by (simp add: goto_urls_append)
qed

lemma goto_urls_getChapterData:
  "goto_urls (snd (getChapterData w chapterUrl t)) =
     goto_urls t @ (if reaches_navigation w then [chapterUrl] else [])"
  unfolding getChapterData_def goto_urls_pipeline [OF quiet_chapter_try]
  by (simp add: goto_urls_chapter_try reaches_navigation_def)

lemma goto_urls_scrapeMangaDetails:
  "goto_urls (snd (scrapeMangaDetails w mangaUrl t)) =
     goto_urls t @ (if reaches_navigation w then [mangaUrl] else [])"
  unfolding scrapeMangaDetails_def goto_urls_pipeline [OF quiet_scrape_try]
  by (simp add: goto_urls_scrape_try reaches_navigation_def)

text \<open>
  Claim C9: the only navigation of the read route goes to the chapter address
  followed by \<open>decodeURIComponent(chapterId)\<close> (there is none when the decoding
  throws), and the only navigation of the detail route goes to the title address
  followed by the parameter itself, with no decoding. A navigation takes place when
  the browser was launched and the page was set up.
\<close>

theorem upstream_urls:
  "goto_urls (snd (read_route w chapterId t)) =
     goto_urls t @
       (case decodeURIComponent w chapterId of
          Inl e \<Rightarrow> []
        | Inr decodedChapterId \<Rightarrow>
            if reaches_navigation w then [js ''https://mangadex.org/chapter/'' @ decodedChapterId]
            else []) \<and>
   goto_urls (snd (detail_route w mangaId t)) =
     goto_urls t @
       (if reaches_navigation w then [js ''https://mangadex.org/title/'' @ mangaId] else [])"
proof
  show "goto_urls (snd (read_route w chapterId t)) =
     goto_urls t @
       (case decodeURIComponent w chapterId of
          Inl e \<Rightarrow> []
        | Inr decodedChapterId \<Rightarrow>
            if reaches_navigation w then [js ''https://mangadex.org/chapter/'' @ decodedChapterId]
            else [])"
  proof (cases "decodeURIComponent w chapterId")
    case (Inl e)
    then show ?thesis
      by (simp add: read_route_def bind_io_def delay_def call_def lift_io_def goto_urls_append)
  next
    case (Inr d)
    obtain r t' where run:
      "getChapterData w (js ''https://mangadex.org/chapter/'' @ d) (t @ [Delay 1000]) = (r, t')"
      by fastforce
    then have "goto_urls t' =
        goto_urls (t @ [Delay 1000]) @
          (if reaches_navigation w then [js ''https://mangadex.org/chapter/'' @ d] else [])"
      using goto_urls_getChapterData [of w "js ''https://mangadex.org/chapter/'' @ d" "t @ [Delay 1000]"]
      by simp
    with run Inr show ?thesis
      by (cases r)
        (simp_all add: read_route_def bind_io_def delay_def call_def lift_io_def goto_urls_append)
  qed
next
  obtain r t' where run:
    "scrapeMangaDetails w (js ''https://mangadex.org/title/'' @ mangaId) (t @ [Delay 1000]) = (r, t')"
    by fastforce
  then have "goto_urls t' =
      goto_urls (t @ [Delay 1000]) @
        (if reaches_navigation w then [js ''https://mangadex.org/title/'' @ mangaId] else [])"
    using goto_urls_scrapeMangaDetails [of w "js ''https://mangadex.org/title/'' @ mangaId"
        "t @ [Delay 1000]"]
    by simp
  with run show "goto_urls (snd (detail_route w mangaId t)) =
     goto_urls t @
       (if reaches_navigation w then [js ''https://mangadex.org/title/'' @ mangaId] else [])"
    by (cases r) (simp_all add: detail_route_def bind_io_def delay_def call_def goto_urls_append)
qed

theorem upstream_urls_witness:
  "goto_urls (snd (read_route
       (example_world example_chapter_page
          \<lparr> decodeURIComponent := (\<lambda>s. if s = js ''a%20b'' then Inr (js ''a b'') else Inr s) \<rparr>)
       (js ''a%20b'') [])) = [js ''https://mangadex.org/chapter/a b''] \<and>
   goto_urls (snd (detail_route
       (example_world example_chapter_page
          \<lparr> decodeURIComponent := (\<lambda>s. if s = js ''a%20b'' then Inr (js ''a b'') else Inr s) \<rparr>)
       (js ''a%20b'') [])) = [js ''https://mangadex.org/title/a%20b'']"
  using upstream_urls [of "example_world example_chapter_page
          \<lparr> decodeURIComponent := (\<lambda>s. if s = js ''a%20b'' then Inr (js ''a b'') else Inr s) \<rparr>"
       "js ''a%20b''" "[]" "js ''a%20b''"]
  by (simp add: reaches_navigation_def launched_def example_world_def js_def)

end
